theory Spec2Isabelle
  imports Main
begin

section \<open>Configuration: the \<open>@chat/config\<close> package\<close>


datatype node_env = Development | Production | Test


record 'n env =
  PORT :: 'n
  NODE_ENV :: node_env
  JWT_SECRET :: string

record 'n config =
  port :: 'n
  isDev :: bool
  nodeEnv :: node_env
  jwtSecret :: string






definition config_of :: "'n env \<Rightarrow> 'n config" where
  "config_of e =
     \<lparr>port = PORT e, isDev = (NODE_ENV e = Development), nodeEnv = NODE_ENV e,
      jwtSecret = JWT_SECRET e\<rparr>"

section \<open>The backend's login route (\<open>apps/backend/src/routes/auth.ts\<close>)\<close>

text \<open>
  \<^verbatim>\<open>
  export const loginSchema = z.object({
    email: z.string().email(),
    password: z.string().min(6),
  })

  authRouter.post("/login", zValidator("json", loginSchema), async (c) => {
    const { email, password } = c.req.valid("json")
    const secret = env.JWT_SECRET
    // TODO: actual DB verify and JWT sign here
    return c.json({
      success: true,
      message: "Login successful",
      token: "placeholder_token",
      debug: config.isDev ? { secretSet: !!secret } : undefined,
    })
  })
  \<close>
  zod's e-mail pattern is a parameter \<open>is_email\<close>. The validator middleware answers 400
  before the handler runs when the body does not satisfy the schema. A string is a list
  of its code units, so \<open>length\<close> is JavaScript's \<open>.length\<close>.
\<close>

record login_body =
  body_email :: string
  body_password :: string

definition loginSchema :: "(string \<Rightarrow> bool) \<Rightarrow> login_body \<Rightarrow> bool" where
  "loginSchema is_email b = (is_email (body_email b) \<and> 6 \<le> length (body_password b))"

record login_json =
  success :: bool
  message :: string
  token :: string
  debug_secretSet :: "bool option"

datatype placeholder_response =
    ValidationError400
  | Json200 login_json

definition authRouter_post_login ::
  "(string \<Rightarrow> bool) \<Rightarrow> 'n env \<Rightarrow> login_body \<Rightarrow> placeholder_response" where
  "authRouter_post_login is_email e b =
     (if \<not> loginSchema is_email b then ValidationError400
      else
        (let secret = JWT_SECRET e in
         Json200 \<lparr>success = True, message = ''Login successful'', token = ''placeholder_token'',
                  debug_secretSet = (if isDev (config_of e) then Some (secret \<noteq> []) else None)\<rparr>))"

section \<open>The libraries the handlers call: \<open>hono/jwt\<close>, \<open>bcrypt\<close> and \<open>zod\<close>\<close>

text \<open>
  None of the libraries is part of the repository. A token is modelled symbolically: it
  is either the encoding of a payload together with the secret under which its
  signature verifies, or a string that is not of the three-part form at all. \<open>sign\<close>
  is deterministic (an HS256 signature is a function of payload and secret). The
  payload fields are the registered claims that \<open>verify\<close> reads and the ones the
  handlers write; \<open>ptype\<close> is the claim \<open>type\<close>. The time claims are numbers of seconds.
\<close>

record payload =
  sub :: string
  email :: "string option"
  role :: "string option"
  ptype :: "string option"
  nbf :: "nat option"
  iat :: "nat option"
  exp :: "nat option"

datatype token = Jwt payload string | Opaque string

datatype jwt_error =
    JwtTokenInvalid
  | JwtTokenNotBefore
  | JwtTokenExpired
  | JwtTokenIssuedAt
  | JwtTokenSignatureMismatched

definition sign :: "payload \<Rightarrow> string \<Rightarrow> token" where
  "sign p secret = Jwt p secret"

text \<open>
  The characters of a token. How the library writes a signed payload (the header, the
  payload's JSON and the signature, each in base64url) is a parameter \<open>enc\<close> of the
  model; only \<open>bcrypt\<close> and the error messages look at a token's characters.
\<close>

fun token_text :: "(payload \<Rightarrow> string \<Rightarrow> string) \<Rightarrow> token \<Rightarrow> string" where
  "token_text enc (Jwt p k) = enc p k"
| "token_text enc (Opaque s) = s"

text \<open>
  \<open>verify\<close> reads the clock itself, as a 32-bit integer
  (\<open>const now = (Date.now() / 1000) | 0\<close>), and tests each time claim only when it is
  truthy, before it checks the signature:
  \<^verbatim>\<open>
  if (payload.nbf && payload.nbf > now) throw new JwtTokenNotBefore(token)
  if (payload.exp && payload.exp <= now) throw new JwtTokenExpired(token)
  if (payload.iat && now < payload.iat) throw new JwtTokenIssuedAt(now, payload.iat)
  \<close>
  \<open>now_ms\<close> is \<open>Date.now()\<close>, in milliseconds.
\<close>

definition int32 :: "nat \<Rightarrow> int" where
  "int32 n = (let m = int n mod 2 ^ 32 in if m < 2 ^ 31 then m else m - 2 ^ 32)"

definition verify :: "token \<Rightarrow> string \<Rightarrow> nat \<Rightarrow> jwt_error + payload" where
  "verify t secret now_ms =
     (let now = int32 (now_ms div 1000) in
      case t of
        Opaque s \<Rightarrow> Inl JwtTokenInvalid
      | Jwt p k \<Rightarrow>
          (if (case nbf p of Some n \<Rightarrow> n \<noteq> 0 \<and> now < int n | None \<Rightarrow> False)
           then Inl JwtTokenNotBefore
           else if (case exp p of Some e \<Rightarrow> e \<noteq> 0 \<and> int e \<le> now | None \<Rightarrow> False)
           then Inl JwtTokenExpired
           else if (case iat p of Some i \<Rightarrow> i \<noteq> 0 \<and> now < int i | None \<Rightarrow> False)
           then Inl JwtTokenIssuedAt
           else if k \<noteq> secret then Inl JwtTokenSignatureMismatched
           else Inr p))"

text \<open>
  The \<open>message\<close> of each error. All but the one about \<open>iat\<close> quote the token; the one
  about \<open>iat\<close> goes on with the clock reading and the claim, two numbers, and only its
  first words are kept here.
\<close>

fun message_of :: "(payload \<Rightarrow> string \<Rightarrow> string) \<Rightarrow> jwt_error \<Rightarrow> token \<Rightarrow> string" where
  "message_of enc JwtTokenInvalid t = ''invalid JWT token: '' @ token_text enc t"
| "message_of enc JwtTokenNotBefore t =
     ''token ('' @ token_text enc t @ '') is being used before it'' @ [CHR 0x27] @ ''s valid''"
| "message_of enc JwtTokenExpired t = ''token ('' @ token_text enc t @ '') expired''"
| "message_of enc JwtTokenIssuedAt t =
     ''Invalid '' @ [CHR 0x22] @ ''iat'' @ [CHR 0x22] @ '' claim, must be a valid number lower than''"
| "message_of enc JwtTokenSignatureMismatched t =
     ''token('' @ token_text enc t @ '') signature mismatched''"

fun startsWith :: "string \<Rightarrow> string \<Rightarrow> bool" where
  "startsWith s [] = True"
| "startsWith [] (c # cs) = False"
| "startsWith (x # xs) (c # cs) = (x = c \<and> startsWith xs cs)"

fun str_includes :: "string \<Rightarrow> string \<Rightarrow> bool" where
  "str_includes [] w = (w = [])"
| "str_includes (x # xs) w = (startsWith (x # xs) w \<or> str_includes xs w)"

text \<open>
  \<open>bcrypt.hash(s, 10)\<close> draws a random salt; the salt is an argument here. bcrypt
  reads the first 72 bytes of its input and nothing after them, so \<open>bcrypt.compare\<close>
  accepts a string for a digest exactly when the string and the hashed one agree in
  their first 72 characters. A digest records what was hashed; \<open>bcrypt.compare\<close> is the
  only function of the handlers that looks at a digest, and it is given how to read
  the characters of its input (\<open>txt\<close>).
\<close>

datatype 'a digest = Bcrypt 'a nat nat

definition bcrypt_hash :: "'a \<Rightarrow> nat \<Rightarrow> nat \<Rightarrow> 'a digest" where
  "bcrypt_hash s cost salt = Bcrypt s cost salt"

fun bcrypt_compare :: "('a \<Rightarrow> string) \<Rightarrow> 'a \<Rightarrow> 'a digest \<Rightarrow> bool" where
  "bcrypt_compare txt s (Bcrypt s' cost salt) = (take 72 (txt s) = take 72 (txt s'))"

text \<open>
  The request bodies. \<open>POST /auth/login\<close> and the example's \<open>POST /login\<close> run
  \<open>zValidator("json", loginSchema)\<close> first, which answers 400 unless the body has a
  valid \<open>email\<close> and \<open>password\<close>; the guide's schema asks for a password of at least 8
  characters, the example's for any string. The other routes read the JSON they are
  sent unvalidated: a body that is not JSON, the JSON \<open>null\<close>, some other JSON that is
  not an object (reading a property of it gives \<open>undefined\<close>), or an object, of which
  only the property \<open>refreshToken\<close> matters (\<open>None\<close> when it is missing). A JSON string
  is a token; a JSON number is an integer here, since the handlers only test whether it
  is zero; \<open>JCompound\<close> is an array or an object.
\<close>

definition loginSchema_guide :: "(string \<Rightarrow> bool) \<Rightarrow> login_body \<Rightarrow> bool" where
  "loginSchema_guide is_email b = (is_email (body_email b) \<and> 8 \<le> length (body_password b))"

definition loginSchema_example :: "(string \<Rightarrow> bool) \<Rightarrow> login_body \<Rightarrow> bool" where
  "loginSchema_example is_email b = is_email (body_email b)"

datatype json_value = JNull | JBool bool | JNumber int | JString token | JCompound

datatype json_body = NotJson | JsonNull | JsonOther | JsonObject "json_value option"

text \<open>JavaScript truthiness of what reading a property gives.\<close>

fun truthy :: "json_value option \<Rightarrow> bool" where
  "truthy None = False"
| "truthy (Some JNull) = False"
| "truthy (Some (JBool b)) = b"
| "truthy (Some (JNumber n)) = (n \<noteq> 0)"
| "truthy (Some (JString t)) = (t \<noteq> Opaque [])"
| "truthy (Some JCompound) = True"

section \<open>The database-backed authentication handlers of the guide\<close>

subsection \<open>Responses, secrets and tables\<close>

text \<open>
  \<open>process.env.JWT_SECRET\<close> and \<open>process.env.JWT_REFRESH_SECRET\<close> are the two
  signing secrets. A response is the JSON body with its status; the bodies that carry
  tokens are answered with status 200. \<open>ValidationErrorJson\<close> is the validator's answer
  (400), \<open>InternalServerError\<close> the framework's answer (500) when a handler throws.
  Every handler takes the state of the database and returns the new state with its
  response. A handler run reads the clock once: \<open>now_ms\<close> is what \<open>Date.now()\<close> and
  \<open>new Date()\<close> give during the run.
\<close>

record jwt_secrets =
  jwt_secret :: string
  jwt_refresh_secret :: string

record user_json =
  uj_id :: string
  uj_email :: string
  uj_role :: string

datatype response =
    ErrorJson string "string option" nat
  | LoginJson token token nat string user_json
  | TokenPairJson token token "nat option"
  | MessageJson string
  | ValidationErrorJson
  | InternalServerError

record user_row =
  user_id :: string
  user_email :: string
  passwordHash :: "string digest"
  user_role :: string

record refreshToken_row =
  row_id :: nat
  userId :: string
  tokenHash :: "token digest"
  expiresAt :: nat
  revokedAt :: "nat option"

record db =
  db_user :: "user_row list"
  db_refreshToken :: "refreshToken_row list"

text \<open>
  The ORM calls. \<open>create\<close> appends a row whose id the database generates (the row count:
  no handler deletes a row); \<open>findMany\<close> returns the matching rows in table order;
  \<open>update\<close> and \<open>updateMany\<close> set \<open>revokedAt\<close> on the rows their \<open>where\<close> selects.
\<close>

definition refreshToken_create :: "string \<Rightarrow> token digest \<Rightarrow> nat \<Rightarrow> db \<Rightarrow> db" where
  "refreshToken_create uid h expires d =
     d\<lparr>db_refreshToken := db_refreshToken d @
          [\<lparr>row_id = length (db_refreshToken d), userId = uid, tokenHash = h,
            expiresAt = expires, revokedAt = None\<rparr>]\<rparr>"

definition refreshToken_findMany :: "(refreshToken_row \<Rightarrow> bool) \<Rightarrow> db \<Rightarrow> refreshToken_row list" where
  "refreshToken_findMany wh d = filter wh (db_refreshToken d)"

definition refreshToken_update :: "nat \<Rightarrow> nat \<Rightarrow> db \<Rightarrow> db" where
  "refreshToken_update i at d =
     d\<lparr>db_refreshToken :=
          map (\<lambda>r. if row_id r = i then r\<lparr>revokedAt := Some at\<rparr> else r) (db_refreshToken d)\<rparr>"

definition refreshToken_updateMany :: "string \<Rightarrow> nat \<Rightarrow> db \<Rightarrow> db" where
  "refreshToken_updateMany uid at d =
     d\<lparr>db_refreshToken :=
          map (\<lambda>r. if userId r = uid then r\<lparr>revokedAt := Some at\<rparr> else r) (db_refreshToken d)\<rparr>"

definition user_findUnique_email :: "string \<Rightarrow> db \<Rightarrow> user_row option" where
  "user_findUnique_email e d = find (\<lambda>u. user_email u = e) (db_user d)"

definition user_findUnique_id :: "string \<Rightarrow> db \<Rightarrow> user_row option" where
  "user_findUnique_id i d = find (\<lambda>u. user_id u = i) (db_user d)"

subsection \<open>The \<open>authenticate\<close> middleware\<close>

text \<open>
  \<^verbatim>\<open>
  export const authenticate: MiddlewareHandler = async (c, next) => {
    const authHeader = c.req.header("Authorization")
    if (!authHeader || !authHeader.startsWith("Bearer ")) {
      return c.json({ error: "Missing or invalid authorization header" }, 401)
    }
    const token = authHeader.slice(7)
    try {
      const payload = await verify(token, c.env.JWT_SECRET || process.env.JWT_SECRET!)
      c.set("userId", payload.sub as string)
      c.set("userRole", payload.role as string)
      c.set("jwtPayload", payload)
      await next()
    } catch (err: any) {
      if (err.message?.includes("expired")) {
        return c.json({ error: "Token expired", code: "TOKEN_EXPIRED" }, 401)
      }
      return c.json({ error: "Invalid token" }, 401)
    }
  }
  \<close>
  A header is \<open>Bearer\<close> followed by a token, or some other text. The middleware either
  answers itself (\<open>Inl\<close>) or hands the request on with the context variables set (\<open>Inr\<close>).
\<close>

datatype auth_header = Bearer token | OtherHeader string

record request_context =
  ctx_userId :: string
  ctx_userRole :: "string option"
  ctx_jwtPayload :: payload

definition authenticate ::
  "jwt_secrets \<Rightarrow> (payload \<Rightarrow> string \<Rightarrow> string) \<Rightarrow> nat \<Rightarrow> auth_header option
     \<Rightarrow> response + request_context" where
  "authenticate secrets enc now_ms authHeader =
     (case authHeader of
        None \<Rightarrow> Inl (ErrorJson ''Missing or invalid authorization header'' None 401)
      | Some (OtherHeader h) \<Rightarrow> Inl (ErrorJson ''Missing or invalid authorization header'' None 401)
      | Some (Bearer t) \<Rightarrow>
          (case verify t (jwt_secret secrets) now_ms of
             Inr p \<Rightarrow> Inr \<lparr>ctx_userId = sub p, ctx_userRole = role p, ctx_jwtPayload = p\<rparr>
           | Inl err \<Rightarrow>
               (if str_includes (message_of enc err t) ''expired''
                then Inl (ErrorJson ''Token expired'' (Some ''TOKEN_EXPIRED'') 401)
                else Inl (ErrorJson ''Invalid token'' None 401))))"

subsection \<open>\<open>POST /auth/login\<close>\<close>

text \<open>
  \<^verbatim>\<open>
  const loginSchema = z.object({ email: z.string().email(), password: z.string().min(8) })
  app.post("/auth/login", zValidator("json", loginSchema), async (c) => { ... })
  \<close>
  The validator first; then the handler looks the user up, compares the password,
  signs the pair, stores the digest of the refresh token and answers. \<open>salt\<close> is the
  salt \<open>bcrypt.hash\<close> draws.
\<close>

definition access_payload :: "user_row \<Rightarrow> nat \<Rightarrow> payload" where
  "access_payload u now =
     \<lparr>sub = user_id u, email = Some (user_email u), role = Some (user_role u), ptype = None,
      nbf = None, iat = Some now, exp = Some (now + 60 * 15)\<rparr>"

definition refresh_payload :: "user_row \<Rightarrow> nat \<Rightarrow> payload" where
  "refresh_payload u now =
     \<lparr>sub = user_id u, email = None, role = None, ptype = Some ''refresh'',
      nbf = None, iat = Some now, exp = Some (now + 60 * 60 * 24 * 7)\<rparr>"

definition auth_login ::
  "jwt_secrets \<Rightarrow> (string \<Rightarrow> bool) \<Rightarrow> nat \<Rightarrow> nat \<Rightarrow> db \<Rightarrow> login_body \<Rightarrow> db \<times> response" where
  "auth_login secrets is_email now_ms salt d b =
     (if \<not> loginSchema_guide is_email b then (d, ValidationErrorJson)
      else
        (case user_findUnique_email (body_email b) d of
           None \<Rightarrow> (d, ErrorJson ''Invalid credentials'' None 401)
         | Some u \<Rightarrow>
             (if \<not> bcrypt_compare (\<lambda>s. s) (body_password b) (passwordHash u)
              then (d, ErrorJson ''Invalid credentials'' None 401)
              else
                (let now = now_ms div 1000;
                     accessToken = sign (access_payload u now) (jwt_secret secrets);
                     refreshToken = sign (refresh_payload u now) (jwt_refresh_secret secrets);
                     d' = refreshToken_create (user_id u) (bcrypt_hash refreshToken 10 salt)
                            (now_ms + 7 * 24 * 60 * 60 * 1000) d
                 in (d', LoginJson accessToken refreshToken 900 ''Bearer''
                           \<lparr>uj_id = user_id u, uj_email = user_email u, uj_role = user_role u\<rparr>)))))"

subsection \<open>\<open>POST /auth/refresh\<close>\<close>

text \<open>
  The handler in two parts, split where it stops reading and starts writing; every
  \<open>await\<close> of the source is a point where another request may run. Steps 1 to 4 read
  the body, verify the token and look for the stored row that matches it:
  \<^verbatim>\<open>
  const body = await c.req.json<{ refreshToken: string }>()
  const { refreshToken } = body
  if (!refreshToken) return c.json({ error: "Refresh token required" }, 400)
  try { payload = await verify(refreshToken, process.env.JWT_REFRESH_SECRET!) }
  catch (err) { return c.json({ error: "Invalid or expired refresh token" }, 401) }
  if (payload.type !== "refresh") return c.json({ error: "Invalid token type" }, 401)
  const storedTokens = await db.refreshToken.findMany({
    where: { userId: payload.sub, expiresAt: { gt: new Date() }, revokedAt: null } })
  let tokenRecord = null
  for (const record of storedTokens) {
    const matches = await bcrypt.compare(refreshToken, record.tokenHash)
    if (matches) { tokenRecord = record; break }
  }
  \<close>
  A body that is not JSON makes \<open>c.req.json()\<close> throw, and \<open>null\<close> cannot be
  destructured; a truthy \<open>refreshToken\<close> that is not a string makes \<open>verify\<close> throw
  inside the \<open>try\<close>.
\<close>

definition auth_refresh_lookup ::
  "jwt_secrets \<Rightarrow> (payload \<Rightarrow> string \<Rightarrow> string) \<Rightarrow> nat \<Rightarrow> db \<Rightarrow> json_body
     \<Rightarrow> response + (token \<times> payload \<times> refreshToken_row option)" where
  "auth_refresh_lookup secrets enc now_ms d body =
     (case body of
        NotJson \<Rightarrow> Inl InternalServerError
      | JsonNull \<Rightarrow> Inl InternalServerError
      | JsonOther \<Rightarrow> Inl (ErrorJson ''Refresh token required'' None 400)
      | JsonObject v \<Rightarrow>
          (if \<not> truthy v then Inl (ErrorJson ''Refresh token required'' None 400)
           else
             (case v of
                Some (JString refreshToken) \<Rightarrow>
                  (case verify refreshToken (jwt_refresh_secret secrets) now_ms of
                     Inl err \<Rightarrow> Inl (ErrorJson ''Invalid or expired refresh token'' None 401)
                   | Inr p \<Rightarrow>
                       (if ptype p \<noteq> Some ''refresh''
                        then Inl (ErrorJson ''Invalid token type'' None 401)
                        else
                          (let storedTokens =
                                 refreshToken_findMany
                                   (\<lambda>r. userId r = sub p \<and> now_ms < expiresAt r \<and> revokedAt r = None) d
                           in Inr (refreshToken, p,
                                   find (\<lambda>r. bcrypt_compare (token_text enc) refreshToken (tokenHash r))
                                     storedTokens))))
              | _ \<Rightarrow> Inl (ErrorJson ''Invalid or expired refresh token'' None 401))))"

text \<open>
  The rest revokes and reissues:
  \<^verbatim>\<open>
  if (!tokenRecord) {
    // Token not found = possible token reuse attack!
    // Revoke ALL tokens for this user (security measure)
    await db.refreshToken.updateMany({ where: { userId: payload.sub }, data: { revokedAt: new Date() } })
    return c.json({ error: "Token reuse detected. Please log in again." }, 401)
  }
  // 5. Revoke the old refresh token
  await db.refreshToken.update({ where: { id: tokenRecord.id }, data: { revokedAt: new Date() } })
  const user = await db.user.findUnique({ where: { id: payload.sub } })
  if (!user) return c.json({ error: "User not found" }, 401)
  // 7. Issue new token pair (Refresh Token Rotation)
  const now = Math.floor(Date.now() / 1000)
  const newAccessToken = await sign({ sub, email, role, iat: now, exp: now + 60 * 15 }, JWT_SECRET)
  const newRefreshToken = await sign({ sub, type: "refresh", iat: now, exp: now + 60 * 60 * 24 * 7 },
                                     JWT_REFRESH_SECRET)
  await db.refreshToken.create({ data: { userId: user.id,
    tokenHash: await bcrypt.hash(newRefreshToken, 10),
    expiresAt: new Date(Date.now() + 7 * 24 * 60 * 60 * 1000) } })
  return c.json({ accessToken: newAccessToken, refreshToken: newRefreshToken, expiresIn: 900 })
  \<close>
\<close>

definition auth_refresh_rotate ::
  "jwt_secrets \<Rightarrow> nat \<Rightarrow> nat \<Rightarrow> db \<Rightarrow> payload \<Rightarrow> refreshToken_row option \<Rightarrow> db \<times> response" where
  "auth_refresh_rotate secrets now_ms salt d p tokenRecord =
     (case tokenRecord of
        None \<Rightarrow>
          (refreshToken_updateMany (sub p) now_ms d,
           ErrorJson ''Token reuse detected. Please log in again.'' None 401)
      | Some record \<Rightarrow>
          (let d1 = refreshToken_update (row_id record) now_ms d in
           case user_findUnique_id (sub p) d1 of
             None \<Rightarrow> (d1, ErrorJson ''User not found'' None 401)
           | Some u \<Rightarrow>
               (let now = now_ms div 1000;
                    newAccessToken = sign (access_payload u now) (jwt_secret secrets);
                    newRefreshToken = sign (refresh_payload u now) (jwt_refresh_secret secrets);
                    d2 = refreshToken_create (user_id u) (bcrypt_hash newRefreshToken 10 salt)
                           (now_ms + 7 * 24 * 60 * 60 * 1000) d1
                in (d2, TokenPairJson newAccessToken newRefreshToken (Some 900)))))"

definition auth_refresh ::
  "jwt_secrets \<Rightarrow> (payload \<Rightarrow> string \<Rightarrow> string) \<Rightarrow> nat \<Rightarrow> nat \<Rightarrow> db \<Rightarrow> json_body
     \<Rightarrow> db \<times> response" where
  "auth_refresh secrets enc now_ms salt d body =
     (case auth_refresh_lookup secrets enc now_ms d body of
        Inl resp \<Rightarrow> (d, resp)
      | Inr (refreshToken, p, tokenRecord) \<Rightarrow> auth_refresh_rotate secrets now_ms salt d p tokenRecord)"

subsection \<open>\<open>POST /auth/logout\<close>\<close>

text \<open>
  \<^verbatim>\<open>
  app.post("/auth/logout", authenticate, async (c) => {
    const userId = c.get("userId")
    const body = await c.req.json<{ refreshToken?: string }>().catch(() => ({}))
    if (body.refreshToken) {
      const stored = await db.refreshToken.findMany({ where: { userId, revokedAt: null } })
      for (const record of stored) {
        const matches = await bcrypt.compare(body.refreshToken, record.tokenHash)
        if (matches) {
          await db.refreshToken.update({ where: { id: record.id }, data: { revokedAt: new Date() } })
          break
        }
      }
    } else {
      await db.refreshToken.updateMany({ where: { userId }, data: { revokedAt: new Date() } })
    }
    return c.json({ message: "Logged out successfully" })
  })
  \<close>
  \<open>logout\<close> is the handler proper, for the user the middleware identified;
  \<open>auth_logout\<close> is the route, middleware first. A body that is not JSON counts as
  \<open>{}\<close>; reading a property of \<open>null\<close> throws; \<open>bcrypt.compare\<close> throws when it is given
  something that is not a string, which happens at the first stored row.
\<close>

fun property_refreshToken :: "json_body \<Rightarrow> json_value option" where
  "property_refreshToken (JsonObject v) = v"
| "property_refreshToken b = None"

definition logout ::
  "(payload \<Rightarrow> string \<Rightarrow> string) \<Rightarrow> nat \<Rightarrow> db \<Rightarrow> string \<Rightarrow> json_body \<Rightarrow> db \<times> response" where
  "logout enc now_ms d uid body =
     (if body = JsonNull then (d, InternalServerError)
      else if truthy (property_refreshToken body) then
        (let stored = refreshToken_findMany (\<lambda>r. userId r = uid \<and> revokedAt r = None) d in
         case property_refreshToken body of
           Some (JString refreshToken) \<Rightarrow>
             (case find (\<lambda>r. bcrypt_compare (token_text enc) refreshToken (tokenHash r)) stored of
                Some record \<Rightarrow>
                  (refreshToken_update (row_id record) now_ms d, MessageJson ''Logged out successfully'')
              | None \<Rightarrow> (d, MessageJson ''Logged out successfully''))
         | _ \<Rightarrow>
             (if stored = [] then (d, MessageJson ''Logged out successfully'')
              else (d, InternalServerError)))
      else (refreshToken_updateMany uid now_ms d, MessageJson ''Logged out successfully''))"

definition auth_logout ::
  "jwt_secrets \<Rightarrow> (payload \<Rightarrow> string \<Rightarrow> string) \<Rightarrow> nat \<Rightarrow> db \<Rightarrow> auth_header option \<Rightarrow> json_body
     \<Rightarrow> db \<times> response" where
  "auth_logout secrets enc now_ms d authHeader body =
     (case authenticate secrets enc now_ms authHeader of
        Inl resp \<Rightarrow> (d, resp)
      | Inr c \<Rightarrow> logout enc now_ms d (ctx_userId c) body)"

subsection \<open>Requests served one after another\<close>

datatype request =
    PostLogin nat nat login_body
  | PostRefresh nat nat json_body
  | PostLogout nat "auth_header option" json_body

fun handle ::
  "jwt_secrets \<Rightarrow> (payload \<Rightarrow> string \<Rightarrow> string) \<Rightarrow> (string \<Rightarrow> bool) \<Rightarrow> db \<Rightarrow> request
     \<Rightarrow> db \<times> response" where
  "handle secrets enc is_email d (PostLogin now_ms salt b) = auth_login secrets is_email now_ms salt d b"
| "handle secrets enc is_email d (PostRefresh now_ms salt body) = auth_refresh secrets enc now_ms salt d body"
| "handle secrets enc is_email d (PostLogout now_ms h body) = auth_logout secrets enc now_ms d h body"

fun serve ::
  "jwt_secrets \<Rightarrow> (payload \<Rightarrow> string \<Rightarrow> string) \<Rightarrow> (string \<Rightarrow> bool) \<Rightarrow> db \<Rightarrow> request list
     \<Rightarrow> db" where
  "serve secrets enc is_email d [] = d"
| "serve secrets enc is_email d (q # qs) = serve secrets enc is_email (fst (handle secrets enc is_email d q)) qs"

section \<open>The in-memory example application of the guide\<close>

text \<open>
  The ``full production example'' keeps its users in an array and its refresh tokens in
  \<open>const refreshTokens = new Set<string>()\<close>; the refresh secret is
  \<open>JWT_SECRET + "_refresh"\<close>. Passwords are stored as they are.
  \<^verbatim>\<open>
  const loginSchema = z.object({ email: z.string().email(), password: z.string() })

  auth.post("/login", zValidator("json", loginSchema), async (c) => {
    const { email, password } = c.req.valid("json")
    const user = users.find((u) => u.email === email)
    if (!user || user.passwordHash !== password) return c.json({ error: "Invalid credentials" }, 401)
    const now = Math.floor(Date.now() / 1000)
    const accessToken = await sign({ sub, email, role, iat: now, exp: now + 900 }, JWT_SECRET)
    const refreshToken = await sign({ sub, type: "refresh", iat: now, exp: now + 604800 },
                                    JWT_SECRET + "_refresh")
    refreshTokens.add(refreshToken)
    return c.json({ accessToken, refreshToken, expiresIn: 900 })
  })

  auth.post("/refresh", async (c) => {
    const { refreshToken } = await c.req.json()
    if (!refreshToken || !refreshTokens.has(refreshToken))
      return c.json({ error: "Invalid refresh token" }, 401)
    try {
      const payload = await verify(refreshToken, JWT_SECRET + "_refresh")
      if (payload.type !== "refresh") throw new Error("Not a refresh token")
      const user = users.find((u) => u.id === payload.sub)
      if (!user) return c.json({ error: "User not found" }, 401)
      refreshTokens.delete(refreshToken)
      const now = Math.floor(Date.now() / 1000)
      ... sign newAccessToken, newRefreshToken as in login ...
      refreshTokens.add(newRefreshToken)
      return c.json({ accessToken: newAccessToken, refreshToken: newRefreshToken })
    } catch { return c.json({ error: "Invalid or expired refresh token" }, 401) }
  })
  \<close>
\<close>

record mem_user =
  mu_id :: string
  mu_email :: string
  mu_name :: string
  mu_passwordHash :: string
  mu_role :: string

record app_state =
  users :: "mem_user list"
  refreshTokens :: "token set"

definition mem_access_payload :: "mem_user \<Rightarrow> nat \<Rightarrow> payload" where
  "mem_access_payload u now =
     \<lparr>sub = mu_id u, email = Some (mu_email u), role = Some (mu_role u), ptype = None,
      nbf = None, iat = Some now, exp = Some (now + 900)\<rparr>"

definition mem_refresh_payload :: "mem_user \<Rightarrow> nat \<Rightarrow> payload" where
  "mem_refresh_payload u now =
     \<lparr>sub = mu_id u, email = None, role = None, ptype = Some ''refresh'',
      nbf = None, iat = Some now, exp = Some (now + 604800)\<rparr>"

definition example_login ::
  "string \<Rightarrow> (string \<Rightarrow> bool) \<Rightarrow> nat \<Rightarrow> app_state \<Rightarrow> login_body \<Rightarrow> app_state \<times> response" where
  "example_login JWT_SECRET' is_email now_ms st b =
     (if \<not> loginSchema_example is_email b then (st, ValidationErrorJson)
      else
        (case find (\<lambda>u. mu_email u = body_email b) (users st) of
           None \<Rightarrow> (st, ErrorJson ''Invalid credentials'' None 401)
         | Some u \<Rightarrow>
             (if mu_passwordHash u \<noteq> body_password b
              then (st, ErrorJson ''Invalid credentials'' None 401)
              else
                (let now = now_ms div 1000;
                     accessToken = sign (mem_access_payload u now) JWT_SECRET';
                     refreshToken = sign (mem_refresh_payload u now) (JWT_SECRET' @ ''_refresh'')
                 in (st\<lparr>refreshTokens := insert refreshToken (refreshTokens st)\<rparr>,
                     TokenPairJson accessToken refreshToken (Some 900))))))"

definition example_refresh ::
  "string \<Rightarrow> nat \<Rightarrow> app_state \<Rightarrow> json_body \<Rightarrow> app_state \<times> response" where
  "example_refresh JWT_SECRET' now_ms st body =
     (if body = NotJson \<or> body = JsonNull then (st, InternalServerError)
      else
        (case property_refreshToken body of
           Some (JString refreshToken) \<Rightarrow>
             (if \<not> truthy (Some (JString refreshToken)) \<or> refreshToken \<notin> refreshTokens st
              then (st, ErrorJson ''Invalid refresh token'' None 401)
              else
                (case verify refreshToken (JWT_SECRET' @ ''_refresh'') now_ms of
                   Inl err \<Rightarrow> (st, ErrorJson ''Invalid or expired refresh token'' None 401)
                 | Inr p \<Rightarrow>
                     (if ptype p \<noteq> Some ''refresh''
                      then (st, ErrorJson ''Invalid or expired refresh token'' None 401)
                      else
                        (case find (\<lambda>u. mu_id u = sub p) (users st) of
                           None \<Rightarrow> (st, ErrorJson ''User not found'' None 401)
                         | Some u \<Rightarrow>
                             (let st1 = st\<lparr>refreshTokens := refreshTokens st - {refreshToken}\<rparr>;
                                  now = now_ms div 1000;
                                  newAccessToken = sign (mem_access_payload u now) JWT_SECRET';
                                  newRefreshToken =
                                    sign (mem_refresh_payload u now) (JWT_SECRET' @ ''_refresh'')
                              in (st1\<lparr>refreshTokens := insert newRefreshToken (refreshTokens st1)\<rparr>,
                                  TokenPairJson newAccessToken newRefreshToken None))))))
         | _ \<Rightarrow> (st, ErrorJson ''Invalid refresh token'' None 401)))"

section \<open>Notions used to state the properties\<close>

text \<open>
  The answer of the reuse branch of \<open>POST /auth/refresh\<close> (the specification's
  \<open>ReuseDetected\<close>), and the body that carries a refresh token.
\<close>

definition reuse_detected :: response where
  "reuse_detected = ErrorJson ''Token reuse detected. Please log in again.'' None 401"

definition token_body :: "token \<Rightarrow> json_body" where
  "token_body tok = JsonObject (Some (JString tok))"

text \<open>
  A row \<open>matching\<close> a token for a user is an unrevoked row of that user whose digest
  \<open>bcrypt.compare\<close> accepts for the token; a token is \<open>spent\<close> when no row matches it.
  A row is \<open>active\<close> (specification, section 3) when it is unrevoked and unexpired.
\<close>

definition matching ::
  "(payload \<Rightarrow> string \<Rightarrow> string) \<Rightarrow> string \<Rightarrow> token \<Rightarrow> refreshToken_row \<Rightarrow> bool" where
  "matching enc uid tok r =
     (userId r = uid \<and> revokedAt r = None \<and> bcrypt_compare (token_text enc) tok (tokenHash r))"

definition spent :: "(payload \<Rightarrow> string \<Rightarrow> string) \<Rightarrow> string \<Rightarrow> token \<Rightarrow> db \<Rightarrow> bool" where
  "spent enc uid tok d = (filter (matching enc uid tok) (db_refreshToken d) = [])"

definition active :: "nat \<Rightarrow> refreshToken_row \<Rightarrow> bool" where
  "active now_ms r = (revokedAt r = None \<and> now_ms < expiresAt r)"

text \<open>
  A body of \<open>POST /auth/logout\<close> is \<open>string_or_falsy\<close> when it is not \<open>null\<close> and its
  \<open>refreshToken\<close> is a string or is falsy (missing, \<open>null\<close>, \<open>false\<close>, 0).
\<close>

definition string_or_falsy :: "json_body \<Rightarrow> bool" where
  "string_or_falsy body =
     (body \<noteq> JsonNull \<and>
      (case property_refreshToken body of
         Some (JString t) \<Rightarrow> True
       | v \<Rightarrow> \<not> truthy v))"

text \<open>
  Calls of \<open>POST /auth/refresh\<close> that overlap: every call does its reading part in the
  state \<open>d0\<close>, before any of them writes; the writing parts then run in the order of the
  list. A call is its clock reading and its salt.
\<close>

fun overlapped ::
  "jwt_secrets \<Rightarrow> (payload \<Rightarrow> string \<Rightarrow> string) \<Rightarrow> db \<Rightarrow> db \<Rightarrow> json_body \<Rightarrow> (nat \<times> nat) list
     \<Rightarrow> response list" where
  "overlapped secrets enc d0 d body [] = []"
| "overlapped secrets enc d0 d body (c # cs) =
     (case auth_refresh_lookup secrets enc (fst c) d0 body of
        Inl resp \<Rightarrow> resp # overlapped secrets enc d0 d body cs
      | Inr (refreshToken, p, tokenRecord) \<Rightarrow>
          snd (auth_refresh_rotate secrets (fst c) (snd c) d p tokenRecord)
            # overlapped secrets enc d0
                (fst (auth_refresh_rotate secrets (fst c) (snd c) d p tokenRecord)) body cs)"

text \<open>
  A row \<open>holds_digest\<close> when its \<open>tokenHash\<close> is the cost-10 bcrypt digest of a token of
  type \<open>refresh\<close> signed under the refresh secret for the row's own user.
\<close>

fun holds_digest :: "jwt_secrets \<Rightarrow> refreshToken_row \<Rightarrow> bool" where
  "holds_digest secrets r =
     (case tokenHash r of
        Bcrypt (Jwt p k) cost salt \<Rightarrow>
          cost = 10 \<and> k = jwt_refresh_secret secrets \<and> sub p = userId r \<and> ptype p = Some ''refresh''
      | Bcrypt (Opaque s) cost salt \<Rightarrow> False)"

text \<open>Every row of the session table holds such a digest.\<close>

definition all_digests :: "jwt_secrets \<Rightarrow> db \<Rightarrow> bool" where
  "all_digests secrets d = (\<forall>r\<in>set (db_refreshToken d). holds_digest secrets r)"

text \<open>
  \<open>kept r r'\<close>: the row \<open>r'\<close> is the row \<open>r\<close> with at most \<open>revokedAt\<close> set (and a
  revoked row stays revoked). \<open>retained rows rows'\<close>: every row of \<open>rows\<close> is still in
  \<open>rows'\<close>, at its place, changed in no other way.
\<close>

definition kept :: "refreshToken_row \<Rightarrow> refreshToken_row \<Rightarrow> bool" where
  "kept r r' = (row_id r' = row_id r \<and> userId r' = userId r \<and> tokenHash r' = tokenHash r
                \<and> expiresAt r' = expiresAt r \<and> (revokedAt r' = revokedAt r \<or> revokedAt r' \<noteq> None))"

definition retained :: "refreshToken_row list \<Rightarrow> refreshToken_row list \<Rightarrow> bool" where
  "retained rows rows' = (length rows \<le> length rows' \<and> list_all2 kept rows (take (length rows) rows'))"

subsection \<open>Example data\<close>

text \<open>
  A sample instance of the e-mail pattern and of the encoding. The sample encoding
  writes the header as the library does, then the payload's JSON in clear (where the
  library writes it in base64url) and a stand-in for the signature.
\<close>

definition ex_is_email :: "string \<Rightarrow> bool" where
  "ex_is_email s = (CHR ''@'' \<in> set s)"

function show_nat :: "nat \<Rightarrow> string" where
  "show_nat n =
     (if n < 10 then [''0123456789'' ! n]
      else show_nat (n div 10) @ [''0123456789'' ! (n mod 10)])"
  by pat_completeness auto
termination
  by (relation "measure (\<lambda>n. n)") auto

definition json_string :: "string \<Rightarrow> string \<Rightarrow> string" where
  "json_string name v = [CHR 0x22] @ name @ [CHR 0x22] @ '':'' @ [CHR 0x22] @ v @ [CHR 0x22]"

definition json_number :: "string \<Rightarrow> nat \<Rightarrow> string" where
  "json_number name n = [CHR 0x22] @ name @ [CHR 0x22] @ '':'' @ show_nat n"

fun json_fields :: "string list \<Rightarrow> string" where
  "json_fields [] = []"
| "json_fields [f] = f"
| "json_fields (f # g # fs) = f @ '','' @ json_fields (g # fs)"

definition ex_json :: "payload \<Rightarrow> string" where
  "ex_json p =
     ''{'' @ json_fields
       ([json_string ''sub'' (sub p)]
        @ (case email p of Some e \<Rightarrow> [json_string ''email'' e] | None \<Rightarrow> [])
        @ (case role p of Some r \<Rightarrow> [json_string ''role'' r] | None \<Rightarrow> [])
        @ (case ptype p of Some t \<Rightarrow> [json_string ''type'' t] | None \<Rightarrow> [])
        @ (case nbf p of Some n \<Rightarrow> [json_number ''nbf'' n] | None \<Rightarrow> [])
        @ (case iat p of Some n \<Rightarrow> [json_number ''iat'' n] | None \<Rightarrow> [])
        @ (case exp p of Some n \<Rightarrow> [json_number ''exp'' n] | None \<Rightarrow> []))
     @ ''}''"

definition ex_enc :: "payload \<Rightarrow> string \<Rightarrow> string" where
  "ex_enc p k = ''eyJhbGciOiJIUzI1NiIsInR5cCI6IkpXVCJ9.'' @ ex_json p @ ''.'' @ ''signed-'' @ k"

definition ex_secrets :: jwt_secrets where
  "ex_secrets = \<lparr>jwt_secret = ''access-key'', jwt_refresh_secret = ''refresh-key''\<rparr>"

definition ex_user :: user_row where
  "ex_user = \<lparr>user_id = ''u1'', user_email = ''ann@example.com'',
               passwordHash = bcrypt_hash ''password'' 10 0, user_role = ''user''\<rparr>"

definition ex_body :: login_body where
  "ex_body = \<lparr>body_email = ''ann@example.com'', body_password = ''password''\<rparr>"

definition ex_access :: "nat \<Rightarrow> token" where
  "ex_access now = sign (access_payload ex_user now) ''access-key''"

definition ex_refresh :: "nat \<Rightarrow> token" where
  "ex_refresh now = sign (refresh_payload ex_user now) ''refresh-key''"

text \<open>The row that a login or refresh of the example user at \<open>now_ms\<close> creates.\<close>

definition ex_row :: "nat \<Rightarrow> nat \<Rightarrow> nat \<Rightarrow> nat option \<Rightarrow> refreshToken_row" where
  "ex_row i now_ms salt rv =
     \<lparr>row_id = i, userId = ''u1'', tokenHash = bcrypt_hash (ex_refresh (now_ms div 1000)) 10 salt,
      expiresAt = now_ms + 604800000, revokedAt = rv\<rparr>"

definition ex_db :: "refreshToken_row list \<Rightarrow> db" where
  "ex_db rs = \<lparr>db_user = [ex_user], db_refreshToken = rs\<rparr>"

text \<open>The example user of the in-memory application, and the tokens it signs for them.\<close>

definition ex_mem_user :: mem_user where
  "ex_mem_user = \<lparr>mu_id = ''u1'', mu_email = ''ann@example.com'', mu_name = ''Ann'',
                   mu_passwordHash = ''password'', mu_role = ''user''\<rparr>"

definition ex_mem_access :: "nat \<Rightarrow> token" where
  "ex_mem_access now = sign (mem_access_payload ex_mem_user now) ''key''"

definition ex_mem_refresh :: "nat \<Rightarrow> token" where
  "ex_mem_refresh now = sign (mem_refresh_payload ex_mem_user now) ''key_refresh''"

definition ex_state :: "token set \<Rightarrow> app_state" where
  "ex_state ts = \<lparr>users = [ex_mem_user], refreshTokens = ts\<rparr>"

section \<open>Properties of the configuration and of the placeholder login\<close>




text \<open>
  C9. For every body that \<open>loginSchema\<close> accepts, \<open>POST /login\<close> answers 200 with
  \<open>success: true\<close> and the constant token \<open>placeholder_token\<close>; the answer depends on
  the configuration only, so two accepted bodies that differ in their password (or in
  anything else) get the same answer.
\<close>

theorem placeholder_login_password_independent:
  assumes "loginSchema is_email b" and "loginSchema is_email b'"
  shows "\<exists>j. authRouter_post_login is_email e b = Json200 j
             \<and> success j = True \<and> token j = ''placeholder_token''
             \<and> authRouter_post_login is_email e b' = Json200 j"
  using assms by (simp add: authRouter_post_login_def)

theorem placeholder_login_password_independent_witness:
  "loginSchema (\<lambda>s. CHR ''@'' \<in> set s) \<lparr>body_email = ''a@b.c'', body_password = ''hunter2''\<rparr>
   \<and> loginSchema (\<lambda>s. CHR ''@'' \<in> set s) \<lparr>body_email = ''a@b.c'', body_password = ''password1''\<rparr>
   \<and> (\<exists>j. authRouter_post_login (\<lambda>s. CHR ''@'' \<in> set s)
             \<lparr>PORT = 4000 :: int, NODE_ENV = Development, JWT_SECRET = ''secret''\<rparr>
             \<lparr>body_email = ''a@b.c'', body_password = ''hunter2''\<rparr> = Json200 j
          \<and> success j = True \<and> token j = ''placeholder_token''
          \<and> authRouter_post_login (\<lambda>s. CHR ''@'' \<in> set s)
             \<lparr>PORT = 4000 :: int, NODE_ENV = Development, JWT_SECRET = ''secret''\<rparr>
             \<lparr>body_email = ''a@b.c'', body_password = ''password1''\<rparr> = Json200 j)"
proof -
  have a: "loginSchema (\<lambda>s. CHR ''@'' \<in> set s) \<lparr>body_email = ''a@b.c'', body_password = ''hunter2''\<rparr>"
    by (simp add: loginSchema_def)
  have b: "loginSchema (\<lambda>s. CHR ''@'' \<in> set s) \<lparr>body_email = ''a@b.c'', body_password = ''password1''\<rparr>"
    by (simp add: loginSchema_def)
  from placeholder_login_password_independent [OF a b] a b show ?thesis by blast
qed

section \<open>Basic facts about the model\<close>

lemmas ex_defs = ex_secrets_def ex_user_def ex_body_def ex_db_def ex_access_def ex_refresh_def
  ex_row_def ex_is_email_def token_body_def

lemmas ex_enc_defs = ex_enc_def ex_json_def json_string_def json_number_def

lemmas handler_defs = auth_login_def auth_refresh_def auth_refresh_lookup_def
  auth_refresh_rotate_def auth_logout_def logout_def authenticate_def verify_def int32_def sign_def
  bcrypt_hash_def refreshToken_create_def refreshToken_update_def refreshToken_updateMany_def
  refreshToken_findMany_def user_findUnique_email_def user_findUnique_id_def access_payload_def
  refresh_payload_def loginSchema_guide_def Let_def

lemma verify_Inr: "verify tok s t = Inr p \<Longrightarrow> tok = Jwt p s"
  by (auto simp: verify_def Let_def split: token.splits if_splits)

lemma rows_update [simp]:
  "db_refreshToken (refreshToken_update i t d) =
     map (\<lambda>r. if row_id r = i then r\<lparr>revokedAt := Some t\<rparr> else r) (db_refreshToken d)"
  by (simp add: refreshToken_update_def)

lemma rows_updateMany [simp]:
  "db_refreshToken (refreshToken_updateMany uid t d) =
     map (\<lambda>r. if userId r = uid then r\<lparr>revokedAt := Some t\<rparr> else r) (db_refreshToken d)"
  by (simp add: refreshToken_updateMany_def)

lemma rows_create [simp]:
  "db_refreshToken (refreshToken_create uid h e d) =
     db_refreshToken d @ [\<lparr>row_id = length (db_refreshToken d), userId = uid, tokenHash = h,
            expiresAt = e, revokedAt = None\<rparr>]"
  by (simp add: refreshToken_create_def)

lemma users_update [simp]: "db_user (refreshToken_update i t d) = db_user d"
  by (simp add: refreshToken_update_def)

lemma users_updateMany [simp]: "db_user (refreshToken_updateMany uid t d) = db_user d"
  by (simp add: refreshToken_updateMany_def)

lemma users_create [simp]: "db_user (refreshToken_create uid h e d) = db_user d"
  by (simp add: refreshToken_create_def)

lemma find_user_id: "user_findUnique_id i d = Some u \<Longrightarrow> user_id u = i"
  by (auto simp: user_findUnique_id_def find_Some_iff)

lemma filter_le1_unique:
  "length (filter M xs) \<le> 1 \<Longrightarrow> x \<in> set xs \<Longrightarrow> M x \<Longrightarrow> y \<in> set xs \<Longrightarrow> M y \<Longrightarrow> x = y"
  by (induction xs) (auto simp: filter_empty_conv split: if_splits)

lemma find_filter_Some:
  "find P (filter Q xs) = Some x \<Longrightarrow> x \<in> set xs \<and> P x \<and> Q x"
  by (auto simp: find_Some_iff dest: nth_mem)

lemma find_None_filter: "find P xs = None \<longleftrightarrow> filter P xs = []"
  by (auto simp: find_None_iff filter_empty_conv)

lemma find_append_Some:
  "P x \<Longrightarrow> \<exists>y. find P (xs @ [x]) = Some y"
  by (cases "find P (xs @ [x])") (auto simp: find_None_iff)

text \<open>What the reading part of \<open>POST /auth/refresh\<close> returns.\<close>

lemma lookup_token_body:
  "auth_refresh_lookup secrets enc t d (token_body tok) =
     (if tok = Opaque [] then Inl (ErrorJson ''Refresh token required'' None 400)
      else
        (case verify tok (jwt_refresh_secret secrets) t of
           Inl err \<Rightarrow> Inl (ErrorJson ''Invalid or expired refresh token'' None 401)
         | Inr p \<Rightarrow>
             (if ptype p \<noteq> Some ''refresh'' then Inl (ErrorJson ''Invalid token type'' None 401)
              else Inr (tok, p,
                     find (\<lambda>r. bcrypt_compare (token_text enc) tok (tokenHash r))
                       (filter (\<lambda>r. userId r = sub p \<and> t < expiresAt r \<and> revokedAt r = None)
                          (db_refreshToken d))))))"
  by (simp add: auth_refresh_lookup_def token_body_def refreshToken_findMany_def Let_def
      split: sum.splits)

lemma lookup_other_body:
  assumes "\<And>tok. body \<noteq> token_body tok"
  shows "auth_refresh_lookup secrets enc t d body = Inl InternalServerError
       \<or> (\<exists>m s. auth_refresh_lookup secrets enc t d body = Inl (ErrorJson m None s))"
proof (cases body)
  case (JsonObject v)
  show ?thesis
  proof (cases v)
    case None
    with JsonObject show ?thesis by (simp add: auth_refresh_lookup_def)
  next
    case (Some jv)
    with JsonObject assms have "\<forall>tok. jv \<noteq> JString tok" by (auto simp: token_body_def)
    with JsonObject Some show ?thesis
      by (cases jv) (simp_all add: auth_refresh_lookup_def)
  qed
qed (simp_all add: auth_refresh_lookup_def)

lemma lookup_Inr:
  assumes "auth_refresh_lookup secrets enc t d body = Inr (tok, p, rc)"
  shows "body = token_body tok \<and> verify tok (jwt_refresh_secret secrets) t = Inr p
    \<and> ptype p = Some ''refresh''
    \<and> rc = find (\<lambda>r. bcrypt_compare (token_text enc) tok (tokenHash r))
         (filter (\<lambda>r. userId r = sub p \<and> t < expiresAt r \<and> revokedAt r = None) (db_refreshToken d))"
proof (cases "\<exists>tok'. body = token_body tok'")
  case False
  with lookup_other_body [of body secrets enc t d] assms show ?thesis by auto
next
  case True
  then obtain tok' where b: "body = token_body tok'" by blast
  show ?thesis
  proof (cases "verify tok' (jwt_refresh_secret secrets) t")
    case (Inl err)
    with assms b show ?thesis by (simp add: lookup_token_body split: if_splits)
  next
    case (Inr p')
    with assms b show ?thesis by (auto simp: lookup_token_body split: if_splits)
  qed
qed

lemma lookup_Inl:
  assumes "auth_refresh_lookup secrets enc t d body = Inl resp"
  shows "resp = InternalServerError \<or> (\<exists>m s. resp = ErrorJson m None s)"
proof (cases "\<exists>tok'. body = token_body tok'")
  case False
  with lookup_other_body [of body secrets enc t d] assms show ?thesis by auto
next
  case True
  then obtain tok' where b: "body = token_body tok'" by blast
  show ?thesis
  proof (cases "verify tok' (jwt_refresh_secret secrets) t")
    case (Inl err)
    with assms b show ?thesis by (auto simp: lookup_token_body split: if_splits)
  next
    case (Inr p')
    with assms b show ?thesis by (auto simp: lookup_token_body split: if_splits)
  qed
qed

text \<open>What the writing part answers depends on the users table only.\<close>

lemma rotate_response:
  "snd (auth_refresh_rotate secrets t salt d p rc) =
     (case rc of
        None \<Rightarrow> reuse_detected
      | Some rcd \<Rightarrow>
          (case user_findUnique_id (sub p) d of
             None \<Rightarrow> ErrorJson ''User not found'' None 401
           | Some u \<Rightarrow>
               TokenPairJson (sign (access_payload u (t div 1000)) (jwt_secret secrets))
                 (sign (refresh_payload u (t div 1000)) (jwt_refresh_secret secrets)) (Some 900)))"
  by (simp add: auth_refresh_rotate_def reuse_detected_def user_findUnique_id_def Let_def
      split: option.splits)

lemma rotate_state:
  "fst (auth_refresh_rotate secrets t salt d p rc) =
     (case rc of
        None \<Rightarrow> refreshToken_updateMany (sub p) t d
      | Some rcd \<Rightarrow>
          (case user_findUnique_id (sub p) d of
             None \<Rightarrow> refreshToken_update (row_id rcd) t d
           | Some u \<Rightarrow>
               refreshToken_create (user_id u)
                 (bcrypt_hash (sign (refresh_payload u (t div 1000)) (jwt_refresh_secret secrets)) 10 salt)
                 (t + 7 * 24 * 60 * 60 * 1000) (refreshToken_update (row_id rcd) t d)))"
  by (simp add: auth_refresh_rotate_def user_findUnique_id_def Let_def split: option.splits)

text \<open>What a successful call of \<open>POST /auth/refresh\<close> has done.\<close>

lemma auth_refresh_success:
  assumes "auth_refresh secrets enc t salt d body = (d', TokenPairJson a r e)"
  shows "\<exists>tok p rcd u.
      body = token_body tok \<and> verify tok (jwt_refresh_secret secrets) t = Inr p
    \<and> ptype p = Some ''refresh''
    \<and> find (\<lambda>r. bcrypt_compare (token_text enc) tok (tokenHash r))
         (filter (\<lambda>r. userId r = sub p \<and> t < expiresAt r \<and> revokedAt r = None) (db_refreshToken d))
         = Some rcd
    \<and> user_findUnique_id (sub p) d = Some u
    \<and> a = sign (access_payload u (t div 1000)) (jwt_secret secrets)
    \<and> r = sign (refresh_payload u (t div 1000)) (jwt_refresh_secret secrets)
    \<and> e = Some 900
    \<and> d' = refreshToken_create (user_id u) (bcrypt_hash r 10 salt) (t + 7 * 24 * 60 * 60 * 1000)
             (refreshToken_update (row_id rcd) t d)"
proof (cases "auth_refresh_lookup secrets enc t d body")
  case (Inl resp)
  with assms have "resp = TokenPairJson a r e" by (simp add: auth_refresh_def)
  with lookup_Inl [OF Inl] show ?thesis by auto
next
  case (Inr x)
  obtain tok p rc where x: "x = (tok, p, rc)" by (cases x)
  note l = lookup_Inr [OF Inr [unfolded x]]
  from assms Inr x have rot: "auth_refresh_rotate secrets t salt d p rc = (d', TokenPairJson a r e)"
    by (simp add: auth_refresh_def)
  from rot have resp: "snd (auth_refresh_rotate secrets t salt d p rc) = TokenPairJson a r e"
    and st: "fst (auth_refresh_rotate secrets t salt d p rc) = d'"
    by simp_all
  from resp obtain rcd where rc: "rc = Some rcd"
    by (cases rc) (simp_all add: rotate_response reuse_detected_def)
  from resp rc obtain u where u: "user_findUnique_id (sub p) d = Some u"
    by (cases "user_findUnique_id (sub p) d") (simp_all add: rotate_response)
  from resp rc u have a: "a = sign (access_payload u (t div 1000)) (jwt_secret secrets)"
    and r: "r = sign (refresh_payload u (t div 1000)) (jwt_refresh_secret secrets)"
    and e: "e = Some 900"
    by (simp_all add: rotate_response)
  from st rc u r have d': "d' = refreshToken_create (user_id u) (bcrypt_hash r 10 salt)
             (t + 7 * 24 * 60 * 60 * 1000) (refreshToken_update (row_id rcd) t d)"
    by (simp add: rotate_state)
  show ?thesis
  proof (intro exI conjI)
    show "body = token_body tok" using l by simp
    show "verify tok (jwt_refresh_secret secrets) t = Inr p" using l by simp
    show "ptype p = Some ''refresh''" using l by simp
    show "find (\<lambda>r. bcrypt_compare (token_text enc) tok (tokenHash r))
         (filter (\<lambda>r. userId r = sub p \<and> t < expiresAt r \<and> revokedAt r = None) (db_refreshToken d))
         = Some rcd" using l rc by simp
    show "user_findUnique_id (sub p) d = Some u" by (rule u)
    show "a = sign (access_payload u (t div 1000)) (jwt_secret secrets)" by (rule a)
    show "r = sign (refresh_payload u (t div 1000)) (jwt_refresh_secret secrets)" by (rule r)
    show "e = Some 900" by (rule e)
    show "d' = refreshToken_create (user_id u) (bcrypt_hash r 10 salt) (t + 7 * 24 * 60 * 60 * 1000)
             (refreshToken_update (row_id rcd) t d)" by (rule d')
  qed
qed

subsection \<open>The example scenario, evaluated\<close>

lemma ex_login:
  "auth_login ex_secrets ex_is_email 5000 1 (ex_db []) ex_body
   = (ex_db [ex_row 0 5000 1 None],
      LoginJson (ex_access 5) (ex_refresh 5) 900 ''Bearer''
        \<lparr>uj_id = ''u1'', uj_email = ''ann@example.com'', uj_role = ''user''\<rparr>)"
  by (simp add: ex_defs handler_defs)

lemma ex_refresh_next_second:
  "auth_refresh ex_secrets ex_enc 6000 2 (ex_db [ex_row 0 5000 1 None]) (token_body (ex_refresh 5))
   = (ex_db [ex_row 0 5000 1 (Some 6000), ex_row 1 6000 2 None],
      TokenPairJson (ex_access 6) (ex_refresh 6) (Some 900))"
  by (simp add: ex_defs handler_defs)

lemma ex_refresh_same_second:
  "auth_refresh ex_secrets ex_enc 5000 2 (ex_db [ex_row 0 5000 1 None]) (token_body (ex_refresh 5))
   = (ex_db [ex_row 0 5000 1 (Some 5000), ex_row 1 5000 2 None],
      TokenPairJson (ex_access 5) (ex_refresh 5) (Some 900))"
  by (simp add: ex_defs handler_defs)

lemma ex_text_refresh_5:
  "take 72 (token_text ex_enc (ex_refresh 5)) = take 72 (token_text ex_enc (ex_refresh 6))"
  by (simp add: ex_defs ex_enc_defs sign_def refresh_payload_def)

section \<open>Refresh-token rotation\<close>

lemma token_body_inject [simp]: "(token_body a = token_body b) = (a = b)"
  by (simp add: token_body_def)

text \<open>
  C1 (the code does not do what the claim says). Let a call of \<open>POST /auth/refresh\<close>
  with the token \<open>tok\<close> succeed and return the refresh token \<open>r1\<close>, and let \<open>tok\<close> and
  \<open>r1\<close> agree in their first 72 characters, as two refresh tokens that the handlers
  sign for one user do. Then a later call that presents \<open>tok\<close> again, while it still
  verifies and the row of \<open>r1\<close> has not expired, is not answered with the reuse error:
  \<open>bcrypt.compare\<close> accepts \<open>tok\<close> for the row the rotation created, and the call
  returns a new pair and leaves an unrevoked row of the user behind.
\<close>

theorem replay_after_rotation_is_served:
  assumes first: "auth_refresh secrets enc t1 salt1 d (token_body tok) = (d1, TokenPairJson a1 r1 e1)"
    and valid: "verify tok (jwt_refresh_secret secrets) t2 = Inr p"
    and unexpired: "t2 < t1 + 604800000"
    and same72: "take 72 (token_text enc tok) = take 72 (token_text enc r1)"
  shows "\<exists>d2 a2 r2.
           auth_refresh secrets enc t2 salt2 d1 (token_body tok) = (d2, TokenPairJson a2 r2 (Some 900))
         \<and> TokenPairJson a2 r2 (Some 900) \<noteq> reuse_detected
         \<and> userId (last (db_refreshToken d2)) = sub p
         \<and> revokedAt (last (db_refreshToken d2)) = None"
proof -
  from verify_Inr [OF valid] have tok: "tok = Jwt p (jwt_refresh_secret secrets)" .
  from auth_refresh_success [OF first] show ?thesis
  proof (elim exE conjE)
    fix tok0 p0 rcd u
    assume b: "token_body tok = token_body tok0"
      and v: "verify tok0 (jwt_refresh_secret secrets) t1 = Inr p0"
      and ty: "ptype p0 = Some ''refresh''"
      and u: "user_findUnique_id (sub p0) d = Some u"
      and r1: "r1 = sign (refresh_payload u (t1 div 1000)) (jwt_refresh_secret secrets)"
      and d1: "d1 = refreshToken_create (user_id u) (bcrypt_hash r1 10 salt1)
                      (t1 + 7 * 24 * 60 * 60 * 1000) (refreshToken_update (row_id rcd) t1 d)"
    from b have tok0: "tok0 = tok" by simp
    have "Jwt p0 (jwt_refresh_secret secrets) = tok0"
      by (rule sym) (rule verify_Inr [OF v])
    also have "\<dots> = tok" by (rule tok0)
    also have "\<dots> = Jwt p (jwt_refresh_secret secrets)" by (rule tok)
    finally have p0: "p0 = p" by simp
    from find_user_id [OF u] p0 have uid: "user_id u = sub p" by simp
    let ?Q = "\<lambda>r. userId r = sub p \<and> t2 < expiresAt r \<and> revokedAt r = None"
    let ?P = "\<lambda>r. bcrypt_compare (token_text enc) tok (tokenHash r)"
    let ?n = "\<lparr>row_id = length (db_refreshToken (refreshToken_update (row_id rcd) t1 d)),
               userId = user_id u, tokenHash = bcrypt_hash r1 10 salt1,
               expiresAt = t1 + 7 * 24 * 60 * 60 * 1000, revokedAt = None\<rparr>"
    have rows: "db_refreshToken d1 = db_refreshToken (refreshToken_update (row_id rcd) t1 d) @ [?n]"
      unfolding d1 by (simp del: rows_update)
    have Qn: "?Q ?n" using uid unexpired by simp
    have Pn: "?P ?n" using same72 by (simp add: bcrypt_hash_def)
    have fl: "filter ?Q (db_refreshToken d1)
            = filter ?Q (db_refreshToken (refreshToken_update (row_id rcd) t1 d)) @ [?n]"
      unfolding rows using Qn by (simp del: rows_update)
    from find_append_Some [of ?P ?n "filter ?Q (db_refreshToken (refreshToken_update (row_id rcd) t1 d))", OF Pn]
    obtain y where "find ?P (filter ?Q (db_refreshToken (refreshToken_update (row_id rcd) t1 d)) @ [?n]) = Some y" ..
    then have y: "find ?P (filter ?Q (db_refreshToken d1)) = Some y"
      by (simp only: fl)
    have ty': "ptype p = Some ''refresh''" using ty p0 by simp
    have ne: "tok \<noteq> Opaque []" using tok by simp
    have look: "auth_refresh_lookup secrets enc t2 d1 (token_body tok) = Inr (tok, p, Some y)"
      by (simp add: lookup_token_body ne valid ty' y)
    have u1: "user_findUnique_id (sub p) d1 = Some u"
      using u p0 unfolding d1 by (simp add: user_findUnique_id_def)
    let ?a2 = "sign (access_payload u (t2 div 1000)) (jwt_secret secrets)"
    let ?r2 = "sign (refresh_payload u (t2 div 1000)) (jwt_refresh_secret secrets)"
    let ?d2 = "refreshToken_create (user_id u) (bcrypt_hash ?r2 10 salt2)
                 (t2 + 7 * 24 * 60 * 60 * 1000) (refreshToken_update (row_id y) t2 d1)"
    have resp: "snd (auth_refresh_rotate secrets t2 salt2 d1 p (Some y)) = TokenPairJson ?a2 ?r2 (Some 900)"
      using u1 by (simp add: rotate_response)
    have st: "fst (auth_refresh_rotate secrets t2 salt2 d1 p (Some y)) = ?d2"
      using u1 by (simp add: rotate_state)
    have call: "auth_refresh secrets enc t2 salt2 d1 (token_body tok) = (?d2, TokenPairJson ?a2 ?r2 (Some 900))"
      using look resp st by (simp add: auth_refresh_def prod_eq_iff)
    show ?thesis
    proof (intro exI conjI)
      show "auth_refresh secrets enc t2 salt2 d1 (token_body tok) = (?d2, TokenPairJson ?a2 ?r2 (Some 900))"
        by (rule call)
      show "TokenPairJson ?a2 ?r2 (Some 900) \<noteq> reuse_detected"
        by (simp add: reuse_detected_def)
      show "userId (last (db_refreshToken ?d2)) = sub p"
        using uid by (simp del: rows_update)
      show "revokedAt (last (db_refreshToken ?d2)) = None"
        by (simp del: rows_update)
    qed
  qed
qed

text \<open>
  The example user logs in at 5000 ms and refreshes at 6000 ms; the first refresh token
  is replayed at 8000 ms.
\<close>

lemma ex_replay:
  "auth_refresh ex_secrets ex_enc 8000 5
     (ex_db [ex_row 0 5000 1 (Some 6000), ex_row 1 6000 2 None]) (token_body (ex_refresh 5))
   = (ex_db [ex_row 0 5000 1 (Some 6000), ex_row 1 6000 2 (Some 8000), ex_row 2 8000 5 None],
      TokenPairJson (ex_access 8) (ex_refresh 8) (Some 900))"
  by (simp add: ex_defs handler_defs ex_enc_defs)

theorem replay_after_rotation_is_served_witness:
  "auth_refresh ex_secrets ex_enc 6000 2 (ex_db [ex_row 0 5000 1 None]) (token_body (ex_refresh 5))
     = (ex_db [ex_row 0 5000 1 (Some 6000), ex_row 1 6000 2 None],
        TokenPairJson (ex_access 6) (ex_refresh 6) (Some 900))
   \<and> verify (ex_refresh 5) ''refresh-key'' 8000 = Inr (refresh_payload ex_user 5)
   \<and> take 72 (token_text ex_enc (ex_refresh 5)) = take 72 (token_text ex_enc (ex_refresh 6))
   \<and> auth_refresh ex_secrets ex_enc 8000 5
        (ex_db [ex_row 0 5000 1 (Some 6000), ex_row 1 6000 2 None]) (token_body (ex_refresh 5))
     = (ex_db [ex_row 0 5000 1 (Some 6000), ex_row 1 6000 2 (Some 8000), ex_row 2 8000 5 None],
        TokenPairJson (ex_access 8) (ex_refresh 8) (Some 900))
   \<and> (\<exists>d2 a2 r2.
         auth_refresh ex_secrets ex_enc 8000 5
           (ex_db [ex_row 0 5000 1 (Some 6000), ex_row 1 6000 2 None]) (token_body (ex_refresh 5))
           = (d2, TokenPairJson a2 r2 (Some 900))
       \<and> TokenPairJson a2 r2 (Some 900) \<noteq> reuse_detected
       \<and> userId (last (db_refreshToken d2)) = sub (refresh_payload ex_user 5)
       \<and> revokedAt (last (db_refreshToken d2)) = None)"
proof -
  have valid: "verify (ex_refresh 5) (jwt_refresh_secret ex_secrets) 8000 = Inr (refresh_payload ex_user 5)"
    by (simp add: ex_defs handler_defs)
  have k: "jwt_refresh_secret ex_secrets = ''refresh-key''"
    by (simp add: ex_secrets_def)
  have un: "(8000 :: nat) < 6000 + 604800000" by simp
  note w = replay_after_rotation_is_served [OF ex_refresh_next_second valid un ex_text_refresh_5, of 5]
  from ex_refresh_next_second valid [unfolded k] ex_text_refresh_5 ex_replay w
  show ?thesis by (intro conjI)
qed

text \<open>
  C6 (the code does not do what the claim says). The example user logs in at 5000 ms;
  the refresh token that the login returns, presented to \<open>POST /auth/refresh\<close> within
  the same clock second, comes back as the ``new'' refresh token. The handler signs
  over the user's id, the type, \<open>iat\<close> and \<open>exp\<close> only, so within one second it signs
  the same string again.
\<close>

theorem rotation_in_the_issuing_second_returns_the_same_token:
  "auth_login ex_secrets ex_is_email 5000 1 (ex_db []) ex_body
     = (ex_db [ex_row 0 5000 1 None],
        LoginJson (ex_access 5) (ex_refresh 5) 900 ''Bearer''
          \<lparr>uj_id = ''u1'', uj_email = ''ann@example.com'', uj_role = ''user''\<rparr>)
   \<and> auth_refresh ex_secrets ex_enc 5000 2 (ex_db [ex_row 0 5000 1 None]) (token_body (ex_refresh 5))
     = (ex_db [ex_row 0 5000 1 (Some 5000), ex_row 1 5000 2 None],
        TokenPairJson (ex_access 5) (ex_refresh 5) (Some 900))"
  by (intro conjI ex_login ex_refresh_same_second)

subsection \<open>Calls that overlap\<close>

lemma rotate_users [simp]:
  "db_user (fst (auth_refresh_rotate secrets t salt d p rc)) = db_user d"
  by (simp add: rotate_state split: option.splits)

lemma rotate_response_users:
  "db_user d = db_user d' \<Longrightarrow>
   snd (auth_refresh_rotate secrets t salt d p rc) = snd (auth_refresh_rotate secrets t salt d' p rc)"
  by (cases rc) (simp_all add: rotate_response user_findUnique_id_def)

lemma overlapped_as_alone:
  "db_user d' = db_user d \<Longrightarrow>
   overlapped secrets enc d d' body cs
     = map (\<lambda>c. snd (auth_refresh secrets enc (fst c) (snd c) d body)) cs"
proof (induction cs arbitrary: d')
  case Nil
  show ?case by simp
next
  case (Cons c cs)
  show ?case
  proof (cases "auth_refresh_lookup secrets enc (fst c) d body")
    case (Inl resp)
    with Cons show ?thesis by (simp add: auth_refresh_def)
  next
    case (Inr x)
    obtain tok p rc where x: "x = (tok, p, rc)" by (cases x)
    have "db_user (fst (auth_refresh_rotate secrets (fst c) (snd c) d' p rc)) = db_user d"
      using Cons.prems by simp
    from Cons.IH [OF this] Inr x rotate_response_users [OF Cons.prems, of secrets "fst c" "snd c" p rc]
    show ?thesis by (simp add: auth_refresh_def)
  qed
qed

text \<open>
  C2 (as amended). The handler has no atomic consume step: which way a call goes is
  decided by what its own lookup found, and the revoke that follows is an
  unconditional update. So when calls that present one token overlap, all of them
  looking the token up before any of them writes, each call is answered exactly as it
  would have been had it been the only call: if a call served alone would return a new
  pair, every one of the overlapping calls returns a new pair and none is answered
  with the reuse error.
\<close>

theorem overlapping_refresh_calls_answer_as_alone:
  "overlapped secrets enc d d body cs
     = map (\<lambda>c. snd (auth_refresh secrets enc (fst c) (snd c) d body)) cs"
  by (rule overlapped_as_alone) simp

lemma ex_refresh_alone_7000:
  "auth_refresh ex_secrets ex_enc 7000 3 (ex_db [ex_row 0 5000 1 None]) (token_body (ex_refresh 5))
   = (ex_db [ex_row 0 5000 1 (Some 7000), ex_row 1 7000 3 None],
      TokenPairJson (ex_access 7) (ex_refresh 7) (Some 900))"
  by (simp add: ex_defs handler_defs)

theorem overlapping_refresh_calls_answer_as_alone_witness:
  "overlapped ex_secrets ex_enc (ex_db [ex_row 0 5000 1 None]) (ex_db [ex_row 0 5000 1 None])
     (token_body (ex_refresh 5)) [(6000, 2), (7000, 3)]
   = [TokenPairJson (ex_access 6) (ex_refresh 6) (Some 900),
      TokenPairJson (ex_access 7) (ex_refresh 7) (Some 900)]"
  using overlapping_refresh_calls_answer_as_alone [of ex_secrets ex_enc "ex_db [ex_row 0 5000 1 None]"
      "token_body (ex_refresh 5)" "[(6000, 2), (7000, 3)]"]
  by (simp add: ex_refresh_next_second ex_refresh_alone_7000 del: overlapped.simps One_nat_def)

text \<open>
  C2 as stated fails when two calls overlap. Both look the token up in the same state
  and both find the row; the first then revokes it and issues a pair, and so does the
  second, which never notices that the row is revoked already. Neither is answered
  with the reuse error.
\<close>

theorem concurrent_refresh_counterexample:
  "auth_refresh_lookup ex_secrets ex_enc 6000 (ex_db [ex_row 0 5000 1 None]) (token_body (ex_refresh 5))
     = Inr (ex_refresh 5, refresh_payload ex_user 5, Some (ex_row 0 5000 1 None))
   \<and> auth_refresh_lookup ex_secrets ex_enc 6001 (ex_db [ex_row 0 5000 1 None]) (token_body (ex_refresh 5))
     = Inr (ex_refresh 5, refresh_payload ex_user 5, Some (ex_row 0 5000 1 None))
   \<and> auth_refresh_rotate ex_secrets 6000 2 (ex_db [ex_row 0 5000 1 None])
        (refresh_payload ex_user 5) (Some (ex_row 0 5000 1 None))
     = (ex_db [ex_row 0 5000 1 (Some 6000), ex_row 1 6000 2 None],
        TokenPairJson (ex_access 6) (ex_refresh 6) (Some 900))
   \<and> auth_refresh_rotate ex_secrets 7000 3 (ex_db [ex_row 0 5000 1 (Some 6000), ex_row 1 6000 2 None])
        (refresh_payload ex_user 5) (Some (ex_row 0 5000 1 None))
     = (ex_db [ex_row 0 5000 1 (Some 7000), ex_row 1 6000 2 None, ex_row 2 7000 3 None],
        TokenPairJson (ex_access 7) (ex_refresh 7) (Some 900))
   \<and> TokenPairJson (ex_access 6) (ex_refresh 6) (Some 900) \<noteq> reuse_detected
   \<and> TokenPairJson (ex_access 7) (ex_refresh 7) (Some 900) \<noteq> reuse_detected"
  by (simp add: ex_defs handler_defs reuse_detected_def)

section \<open>What the handlers write\<close>

text \<open>The state each handler leaves behind, whatever it answers.\<close>

lemma login_state:
  "fst (auth_login secrets is_email t salt d b) = d
   \<or> (\<exists>u. fst (auth_login secrets is_email t salt d b)
            = refreshToken_create (user_id u)
                (bcrypt_hash (sign (refresh_payload u (t div 1000)) (jwt_refresh_secret secrets)) 10 salt)
                (t + 7 * 24 * 60 * 60 * 1000) d)"
  by (simp add: auth_login_def Let_def split: option.splits) blast

lemma refresh_state:
  "fst (auth_refresh secrets enc t salt d body) = d
   \<or> (\<exists>uid. fst (auth_refresh secrets enc t salt d body) = refreshToken_updateMany uid t d)
   \<or> (\<exists>i. fst (auth_refresh secrets enc t salt d body) = refreshToken_update i t d)
   \<or> (\<exists>i u. fst (auth_refresh secrets enc t salt d body)
            = refreshToken_create (user_id u)
                (bcrypt_hash (sign (refresh_payload u (t div 1000)) (jwt_refresh_secret secrets)) 10 salt)
                (t + 7 * 24 * 60 * 60 * 1000) (refreshToken_update i t d))"
proof (cases "auth_refresh_lookup secrets enc t d body")
  case (Inl resp)
  then show ?thesis by (simp add: auth_refresh_def)
next
  case (Inr x)
  obtain tok p rc where x: "x = (tok, p, rc)" by (cases x)
  from Inr x have eq: "fst (auth_refresh secrets enc t salt d body)
      = fst (auth_refresh_rotate secrets t salt d p rc)"
    by (simp add: auth_refresh_def)
  show ?thesis
  proof (cases rc)
    case None
    then show ?thesis unfolding eq rotate_state by auto
  next
    case (Some rcd)
    show ?thesis
    proof (cases "user_findUnique_id (sub p) d")
      case None
      with Some show ?thesis unfolding eq rotate_state by auto
    next
      case (Some u)
      with \<open>rc = Some rcd\<close> show ?thesis unfolding eq rotate_state by auto
    qed
  qed
qed

lemma logout_state:
  "fst (logout enc t d uid body) = d
   \<or> fst (logout enc t d uid body) = refreshToken_updateMany uid t d
   \<or> (\<exists>i. fst (logout enc t d uid body) = refreshToken_update i t d)"
proof (cases "property_refreshToken body")
  case None
  then show ?thesis by (simp add: logout_def)
next
  case (Some v)
  then show ?thesis
    by (cases v) (auto simp: logout_def Let_def split: option.splits)
qed

lemma auth_logout_state:
  "fst (auth_logout secrets enc t d h body) = d
   \<or> (\<exists>uid. fst (auth_logout secrets enc t d h body) = refreshToken_updateMany uid t d)
   \<or> (\<exists>i. fst (auth_logout secrets enc t d h body) = refreshToken_update i t d)"
proof (cases "authenticate secrets enc t h")
  case (Inl resp)
  then show ?thesis by (simp add: auth_logout_def)
next
  case (Inr c)
  with logout_state [of enc t d "ctx_userId c" body] show ?thesis
    by (auto simp: auth_logout_def)
qed

section \<open>What the session table holds\<close>

lemma holds_digest_revoke [simp]:
  "holds_digest secrets (r\<lparr>revokedAt := x\<rparr>) = holds_digest secrets r"
  by (simp split: digest.splits token.splits)

lemma holds_digest_new:
  "holds_digest secrets
     \<lparr>row_id = n, userId = user_id u,
      tokenHash = bcrypt_hash (sign (refresh_payload u now) (jwt_refresh_secret secrets)) 10 salt,
      expiresAt = e, revokedAt = None\<rparr>"
  by (simp add: bcrypt_hash_def sign_def refresh_payload_def)

lemma all_digests_update: "all_digests secrets d \<Longrightarrow> all_digests secrets (refreshToken_update i t d)"
  by (auto simp: all_digests_def simp del: holds_digest.simps)

lemma all_digests_updateMany:
  "all_digests secrets d \<Longrightarrow> all_digests secrets (refreshToken_updateMany uid t d)"
  by (auto simp: all_digests_def simp del: holds_digest.simps)

lemma all_digests_create:
  "all_digests secrets d \<Longrightarrow>
   all_digests secrets
     (refreshToken_create (user_id u)
        (bcrypt_hash (sign (refresh_payload u now) (jwt_refresh_secret secrets)) 10 salt) e d)"
  using holds_digest_new [of secrets _ u now salt e]
  by (auto simp: all_digests_def simp del: holds_digest.simps)

lemma all_digests_login:
  "all_digests secrets d \<Longrightarrow> all_digests secrets (fst (auth_login secrets is_email t salt d b))"
  using login_state [of secrets is_email t salt d b]
  by (auto intro!: all_digests_create)

lemma all_digests_refresh:
  "all_digests secrets d \<Longrightarrow> all_digests secrets (fst (auth_refresh secrets enc t salt d body))"
  using refresh_state [of secrets enc t salt d body]
  by (auto intro!: all_digests_create all_digests_update all_digests_updateMany)

lemma all_digests_logout:
  "all_digests secrets d \<Longrightarrow> all_digests secrets (fst (auth_logout secrets enc t d h body))"
  using auth_logout_state [of secrets enc t d h body]
  by (auto intro!: all_digests_update all_digests_updateMany)

lemma all_digests_handle:
  "all_digests secrets d \<Longrightarrow> all_digests secrets (fst (handle secrets enc is_email d q))"
  by (cases q) (simp_all add: all_digests_login all_digests_refresh all_digests_logout)

lemma all_digests_serve:
  "all_digests secrets d \<Longrightarrow> all_digests secrets (serve secrets enc is_email d qs)"
  by (induction qs arbitrary: d) (simp_all add: all_digests_handle)

text \<open>
  C3 (as amended). In the database-backed handlers every row of the session table
  holds, in \<open>tokenHash\<close>, the cost-10 bcrypt digest of a refresh token signed under the
  refresh secret for the row's own user, in every state reached from a table of such
  rows (the empty table among them) by any sequence of login, refresh and logout
  requests; the column never holds a token itself.
\<close>

theorem session_rows_hold_digests:
  assumes "\<forall>r\<in>set (db_refreshToken d). holds_digest secrets r"
  shows "\<forall>r\<in>set (db_refreshToken (serve secrets enc is_email d qs)). holds_digest secrets r"
  using all_digests_serve [of secrets d enc is_email qs] assms unfolding all_digests_def by blast

theorem session_rows_hold_digests_witness:
  "db_refreshToken (ex_db []) = []
   \<and> db_refreshToken (serve ex_secrets ex_enc ex_is_email (ex_db [])
        [PostLogin 5000 1 ex_body, PostRefresh 6000 2 (token_body (ex_refresh 5))])
     = [ex_row 0 5000 1 (Some 6000), ex_row 1 6000 2 None]
   \<and> holds_digest ex_secrets (ex_row 0 5000 1 (Some 6000))
   \<and> holds_digest ex_secrets (ex_row 1 6000 2 None)
   \<and> tokenHash (ex_row 1 6000 2 None) = bcrypt_hash (ex_refresh 6) 10 2"
proof -
  have e: "\<forall>r\<in>set (db_refreshToken (ex_db [])). holds_digest ex_secrets r"
    by (simp add: ex_db_def)
  have rows: "db_refreshToken (serve ex_secrets ex_enc ex_is_email (ex_db [])
        [PostLogin 5000 1 ex_body, PostRefresh 6000 2 (token_body (ex_refresh 5))])
     = [ex_row 0 5000 1 (Some 6000), ex_row 1 6000 2 None]"
    by (simp add: ex_login ex_refresh_next_second del: One_nat_def) (simp add: ex_db_def)
  from session_rows_hold_digests [OF e, of ex_enc ex_is_email
      "[PostLogin 5000 1 ex_body, PostRefresh 6000 2 (token_body (ex_refresh 5))]"]
  have "holds_digest ex_secrets (ex_row 0 5000 1 (Some 6000))
        \<and> holds_digest ex_secrets (ex_row 1 6000 2 None)"
    unfolding rows by (simp del: holds_digest.simps)
  moreover have "db_refreshToken (ex_db []) = []"
    by (simp add: ex_db_def)
  moreover have "tokenHash (ex_row 1 6000 2 None) = bcrypt_hash (ex_refresh 6) 10 2"
    by (simp add: ex_row_def)
  ultimately show ?thesis using rows by (intro conjI) simp_all
qed

text \<open>
  C3 as stated fails on the in-memory example application: its store \<open>refreshTokens\<close>
  holds, after a login, the very refresh token the login returned.
\<close>

theorem token_store_holds_raw_token_counterexample:
  "snd (example_login ''key'' ex_is_email 5000 (ex_state {}) ex_body)
     = TokenPairJson (ex_mem_access 5) (ex_mem_refresh 5) (Some 900)
   \<and> ex_mem_refresh 5 \<in> refreshTokens (fst (example_login ''key'' ex_is_email 5000 (ex_state {}) ex_body))"
  by (simp add: example_login_def loginSchema_example_def ex_is_email_def ex_state_def
        ex_mem_user_def ex_body_def ex_mem_access_def ex_mem_refresh_def Let_def)

section \<open>Rows are only ever revoked\<close>

lemma kept_refl [simp]: "kept r r"
  by (simp add: kept_def)

lemma kept_revoke [simp]: "kept r (r\<lparr>revokedAt := Some t\<rparr>)"
  by (simp add: kept_def)

lemma kept_trans: "kept r r' \<Longrightarrow> kept r' r'' \<Longrightarrow> kept r r''"
  by (auto simp: kept_def)

lemma retained_refl [simp]: "retained rows rows"
  by (simp add: retained_def list_all2_refl)

lemma retained_map:
  assumes "\<And>r. kept r (f r)"
  shows "retained rows (map f rows)"
  using assms by (simp add: retained_def list_all2_conv_all_nth)

lemma retained_append: "retained rows rows' \<Longrightarrow> retained rows (rows' @ new)"
  by (simp add: retained_def)

lemma retained_trans:
  assumes "retained xs ys" and "retained ys zs"
  shows "retained xs zs"
proof -
  from assms have len: "length xs \<le> length ys" "length ys \<le> length zs"
    and a: "list_all2 kept xs (take (length xs) ys)"
    and b: "list_all2 kept ys (take (length ys) zs)"
    by (simp_all add: retained_def)
  from b have "list_all2 kept (take (length xs) ys) (take (length xs) (take (length ys) zs))"
    by (rule list_all2_takeI)
  with len have "list_all2 kept (take (length xs) ys) (take (length xs) zs)"
    by (simp add: min_def)
  with a have "list_all2 kept xs (take (length xs) zs)"
    by (rule list_all2_trans [rotated 1]) (rule kept_trans)
  with len show ?thesis by (simp add: retained_def)
qed

lemma retained_update: "retained (db_refreshToken d) (db_refreshToken (refreshToken_update i t d))"
  unfolding rows_update by (rule retained_map) simp

lemma retained_updateMany:
  "retained (db_refreshToken d) (db_refreshToken (refreshToken_updateMany uid t d))"
  unfolding rows_updateMany by (rule retained_map) simp

lemma retained_create:
  "retained (db_refreshToken d) (db_refreshToken (refreshToken_create uid h e d))"
  unfolding rows_create by (rule retained_append) simp

lemma retained_create_update:
  "retained (db_refreshToken d)
     (db_refreshToken (refreshToken_create uid h e (refreshToken_update i t d)))"
  by (rule retained_trans [OF retained_update retained_create])

lemma frame_login:
  "retained (db_refreshToken d) (db_refreshToken (fst (auth_login secrets is_email t salt d b)))
   \<and> db_user (fst (auth_login secrets is_email t salt d b)) = db_user d"
  using login_state [of secrets is_email t salt d b]
  by (auto simp: retained_create simp del: rows_create)

lemma frame_refresh:
  "retained (db_refreshToken d) (db_refreshToken (fst (auth_refresh secrets enc t salt d body)))
   \<and> db_user (fst (auth_refresh secrets enc t salt d body)) = db_user d"
  using refresh_state [of secrets enc t salt d body]
  by (auto simp: retained_create_update retained_update retained_updateMany
        simp del: rows_create rows_update rows_updateMany)

lemma frame_logout:
  "retained (db_refreshToken d) (db_refreshToken (fst (auth_logout secrets enc t d h body)))
   \<and> db_user (fst (auth_logout secrets enc t d h body)) = db_user d"
  using auth_logout_state [of secrets enc t d h body]
  by (auto simp: retained_update retained_updateMany simp del: rows_update rows_updateMany)

lemma frame_handle:
  "retained (db_refreshToken d) (db_refreshToken (fst (handle secrets enc is_email d q)))
   \<and> db_user (fst (handle secrets enc is_email d q)) = db_user d"
  by (cases q) (simp_all add: frame_login frame_refresh frame_logout)

text \<open>
  C5 (as amended). In the database-backed handlers, whatever sequence of login, refresh
  and logout requests is served, every row that was in the session table is still
  there, at its place, with its id, user, digest and expiry unchanged; only
  \<open>revokedAt\<close> may have been set, and a revoked row is never un-revoked. The users
  table is not written.
\<close>

theorem rows_only_revoked_never_deleted:
  "retained (db_refreshToken d) (db_refreshToken (serve secrets enc is_email d qs))
   \<and> db_user (serve secrets enc is_email d qs) = db_user d"
proof (induction qs arbitrary: d)
  case Nil
  show ?case by simp
next
  case (Cons q qs)
  from frame_handle [of d secrets enc is_email q]
    Cons.IH [of "fst (handle secrets enc is_email d q)"]
  show ?case by (auto intro: retained_trans)
qed

theorem rows_only_revoked_never_deleted_witness:
  "db_refreshToken (serve ex_secrets ex_enc ex_is_email (ex_db [ex_row 0 5000 1 None])
        [PostRefresh 6000 2 (token_body (ex_refresh 5))])
     = [ex_row 0 5000 1 (Some 6000), ex_row 1 6000 2 None]
   \<and> retained [ex_row 0 5000 1 None] [ex_row 0 5000 1 (Some 6000), ex_row 1 6000 2 None]
   \<and> kept (ex_row 0 5000 1 None) (ex_row 0 5000 1 (Some 6000))"
proof -
  have rows: "db_refreshToken (serve ex_secrets ex_enc ex_is_email (ex_db [ex_row 0 5000 1 None])
        [PostRefresh 6000 2 (token_body (ex_refresh 5))])
     = [ex_row 0 5000 1 (Some 6000), ex_row 1 6000 2 None]"
    by (simp add: ex_refresh_next_second del: One_nat_def) (simp add: ex_db_def)
  have d: "db_refreshToken (ex_db [ex_row 0 5000 1 None]) = [ex_row 0 5000 1 None]"
    by (simp add: ex_db_def)
  from rows_only_revoked_never_deleted [of "ex_db [ex_row 0 5000 1 None]" ex_secrets ex_enc ex_is_email
      "[PostRefresh 6000 2 (token_body (ex_refresh 5))]"]
  have r: "retained [ex_row 0 5000 1 None] [ex_row 0 5000 1 (Some 6000), ex_row 1 6000 2 None]"
    unfolding rows d by simp
  then have "kept (ex_row 0 5000 1 None) (ex_row 0 5000 1 (Some 6000))"
    by (simp add: retained_def)
  with rows r show ?thesis by (intro conjI)
qed

text \<open>
  C5 as stated fails on the in-memory example application: its refresh handler deletes
  the presented token from the store \<open>refreshTokens\<close>.
\<close>

theorem token_store_deletes_counterexample:
  "ex_mem_refresh 5 \<in> refreshTokens (ex_state {ex_mem_refresh 5})
   \<and> snd (example_refresh ''key'' 6000 (ex_state {ex_mem_refresh 5}) (token_body (ex_mem_refresh 5)))
     = TokenPairJson (ex_mem_access 6) (ex_mem_refresh 6) None
   \<and> ex_mem_refresh 5 \<notin> refreshTokens
        (fst (example_refresh ''key'' 6000 (ex_state {ex_mem_refresh 5}) (token_body (ex_mem_refresh 5))))"
  by (simp add: example_refresh_def token_body_def ex_state_def ex_mem_user_def ex_mem_access_def
        ex_mem_refresh_def verify_def int32_def sign_def mem_refresh_payload_def
        mem_access_payload_def Let_def)

section \<open>Token classes and expiry\<close>

lemma str_includes_append: "str_includes ys w \<Longrightarrow> str_includes (xs @ ys) w"
  by (induction xs) simp_all

lemma expired_message: "str_includes (message_of enc JwtTokenExpired t) ''expired''"
proof -
  have "str_includes '') expired'' ''expired''" by simp
  then have "str_includes (''token ('' @ token_text enc t @ '') expired'') ''expired''"
    by (intro str_includes_append)
  then show ?thesis by (simp del: str_includes.simps)
qed

lemma int32_small: "n < 2 ^ 31 \<Longrightarrow> int32 n = int n"
proof -
  assume n: "n < 2 ^ 31"
  then have "int n < 2 ^ 31" by (metis of_nat_less_iff of_nat_numeral of_nat_power)
  moreover have "(2 :: int) ^ 31 < 2 ^ 32" by simp
  ultimately have "int n mod 2 ^ 32 = int n" by simp
  with \<open>int n < 2 ^ 31\<close> show ?thesis by (simp add: int32_def Let_def)
qed

lemma authenticate_error:
  assumes "verify t (jwt_secret secrets) now_ms = Inl err"
  shows "authenticate secrets enc now_ms (Some (Bearer t))
     = Inl (if str_includes (message_of enc err t) ''expired''
            then ErrorJson ''Token expired'' (Some ''TOKEN_EXPIRED'') 401
            else ErrorJson ''Invalid token'' None 401)"
  using assms by (simp add: authenticate_def del: message_of.simps str_includes.simps)

lemma verify_other_secret:
  assumes "k \<noteq> secret"
  shows "\<exists>err. verify (sign p k) secret now_ms = Inl err"
  using assms by (simp add: verify_def sign_def Let_def)

lemma refresh_verify_fails:
  assumes "verify tok (jwt_refresh_secret secrets) now_ms = Inl err" and "tok \<noteq> Opaque []"
  shows "auth_refresh secrets enc now_ms salt d (token_body tok)
           = (d, ErrorJson ''Invalid or expired refresh token'' None 401)"
  using assms by (simp add: auth_refresh_def lookup_token_body)

text \<open>
  C4 (as amended). The two kinds of token are kept apart by their secrets. When the
  access secret and the refresh secret differ: a token signed under the access secret,
  presented to \<open>POST /auth/refresh\<close>, is answered 401 \<open>Invalid or expired refresh token\<close>
  and the database is not touched; a token signed under the refresh secret, presented
  to \<open>authenticate\<close>, is answered 401, with \<open>Token expired\<close> or with \<open>Invalid token\<close>,
  and is never let through. \<open>POST /auth/refresh\<close> answers \<open>Invalid token type\<close> exactly
  for a token that verifies under the refresh secret and whose \<open>type\<close> is not \<open>refresh\<close>.
\<close>

theorem class_isolation_by_secret:
  assumes distinct: "jwt_secret secrets \<noteq> jwt_refresh_secret secrets"
  shows "auth_refresh secrets enc now_ms salt d (token_body (sign p (jwt_secret secrets)))
           = (d, ErrorJson ''Invalid or expired refresh token'' None 401)
       \<and> (authenticate secrets enc now_ms (Some (Bearer (sign p' (jwt_refresh_secret secrets))))
             = Inl (ErrorJson ''Token expired'' (Some ''TOKEN_EXPIRED'') 401)
          \<or> authenticate secrets enc now_ms (Some (Bearer (sign p' (jwt_refresh_secret secrets))))
             = Inl (ErrorJson ''Invalid token'' None 401))
       \<and> ((snd (auth_refresh secrets enc now_ms salt d (token_body tok))
              = ErrorJson ''Invalid token type'' None 401)
            = (\<exists>q. verify tok (jwt_refresh_secret secrets) now_ms = Inr q \<and> ptype q \<noteq> Some ''refresh''))"
proof (intro conjI)
  from verify_other_secret [OF distinct, of p now_ms] obtain err where
    "verify (sign p (jwt_secret secrets)) (jwt_refresh_secret secrets) now_ms = Inl err" ..
  moreover have "sign p (jwt_secret secrets) \<noteq> Opaque []" by (simp add: sign_def)
  ultimately show "auth_refresh secrets enc now_ms salt d (token_body (sign p (jwt_secret secrets)))
           = (d, ErrorJson ''Invalid or expired refresh token'' None 401)"
    by (rule refresh_verify_fails)
next
  from distinct have "jwt_refresh_secret secrets \<noteq> jwt_secret secrets" by simp
  from verify_other_secret [OF this, of p' now_ms] obtain err where
    e: "verify (sign p' (jwt_refresh_secret secrets)) (jwt_secret secrets) now_ms = Inl err" ..
  show "authenticate secrets enc now_ms (Some (Bearer (sign p' (jwt_refresh_secret secrets))))
             = Inl (ErrorJson ''Token expired'' (Some ''TOKEN_EXPIRED'') 401)
          \<or> authenticate secrets enc now_ms (Some (Bearer (sign p' (jwt_refresh_secret secrets))))
             = Inl (ErrorJson ''Invalid token'' None 401)"
    unfolding authenticate_error [OF e] by (simp del: message_of.simps str_includes.simps)
next
  show "(snd (auth_refresh secrets enc now_ms salt d (token_body tok))
              = ErrorJson ''Invalid token type'' None 401)
            = (\<exists>q. verify tok (jwt_refresh_secret secrets) now_ms = Inr q \<and> ptype q \<noteq> Some ''refresh'')"
  proof (cases "verify tok (jwt_refresh_secret secrets) now_ms")
    case (Inl err)
    then show ?thesis
      by (simp add: auth_refresh_def lookup_token_body)
  next
    case (Inr q)
    from verify_Inr [OF Inr] have t: "tok \<noteq> Opaque []" by simp
    show ?thesis
    proof (cases "ptype q = Some ''refresh''")
      case False
      with Inr t show ?thesis
        by (simp add: auth_refresh_def lookup_token_body)
    next
      case True
      with Inr t show ?thesis
        by (simp add: auth_refresh_def lookup_token_body rotate_response reuse_detected_def
              split: option.splits)
    qed
  qed
qed

theorem class_isolation_by_secret_witness:
  "jwt_secret ex_secrets \<noteq> jwt_refresh_secret ex_secrets
   \<and> auth_refresh ex_secrets ex_enc 5000 2 (ex_db [ex_row 0 5000 1 None]) (token_body (ex_access 5))
       = (ex_db [ex_row 0 5000 1 None], ErrorJson ''Invalid or expired refresh token'' None 401)
   \<and> (authenticate ex_secrets ex_enc 5000 (Some (Bearer (ex_refresh 5)))
         = Inl (ErrorJson ''Token expired'' (Some ''TOKEN_EXPIRED'') 401)
      \<or> authenticate ex_secrets ex_enc 5000 (Some (Bearer (ex_refresh 5)))
         = Inl (ErrorJson ''Invalid token'' None 401))"
proof -
  have d: "jwt_secret ex_secrets \<noteq> jwt_refresh_secret ex_secrets"
    by (simp add: ex_secrets_def)
  have a: "ex_access 5 = sign (access_payload ex_user 5) (jwt_secret ex_secrets)"
    and r: "ex_refresh 5 = sign (refresh_payload ex_user 5) (jwt_refresh_secret ex_secrets)"
    by (simp_all add: ex_access_def ex_refresh_def ex_secrets_def)
  from class_isolation_by_secret [OF d, of ex_enc 5000 2 "ex_db [ex_row 0 5000 1 None]"
      "access_payload ex_user 5" "refresh_payload ex_user 5"]
  show ?thesis
    unfolding a [symmetric] r [symmetric] using d by blast
qed

text \<open>
  C4 as stated fails. An access token presented to \<open>POST /auth/refresh\<close> is refused
  with the answer the handler gives to every token that does not verify, not with
  \<open>Invalid token type\<close>; a refresh token presented to \<open>authenticate\<close> fails
  verification on its signature and is answered \<open>Invalid token\<close>.
\<close>

theorem class_isolation_counterexample:
  "snd (auth_refresh ex_secrets ex_enc 5000 2 (ex_db [ex_row 0 5000 1 None]) (token_body (ex_access 5)))
     = ErrorJson ''Invalid or expired refresh token'' None 401
   \<and> ErrorJson ''Invalid or expired refresh token'' None 401 \<noteq> ErrorJson ''Invalid token type'' None 401
   \<and> verify (ex_refresh 5) (jwt_secret ex_secrets) 5000 = Inl JwtTokenSignatureMismatched
   \<and> authenticate ex_secrets ex_enc 5000 (Some (Bearer (ex_refresh 5)))
     = Inl (ErrorJson ''Invalid token'' None 401)"
  by (simp add: ex_defs handler_defs ex_enc_defs)

text \<open>
  C7 (as amended). On a clock that reads less than \<open>2 ^ 31\<close> seconds, a token whose
  \<open>exp\<close> is not zero and not after the current clock second, and whose \<open>nbf\<close>, if it
  has one, has passed, fails verification with the expiry error, whatever the secret
  it was signed under, the right one included. \<open>authenticate\<close> answers it with 401
  \<open>Token expired\<close> and the code \<open>TOKEN_EXPIRED\<close>; \<open>POST /auth/refresh\<close> answers it with
  401 \<open>Invalid or expired refresh token\<close> and leaves the database as it was.
\<close>

theorem expired_token_is_reported_expired:
  assumes expired: "exp p = Some e" "e \<noteq> 0" "e \<le> now_ms div 1000"
    and clock: "now_ms div 1000 < 2 ^ 31"
    and valid_from: "case nbf p of Some n \<Rightarrow> n \<le> now_ms div 1000 | None \<Rightarrow> True"
  shows "verify (Jwt p k) secret now_ms = Inl JwtTokenExpired
       \<and> authenticate secrets enc now_ms (Some (Bearer (Jwt p k)))
           = Inl (ErrorJson ''Token expired'' (Some ''TOKEN_EXPIRED'') 401)
       \<and> auth_refresh secrets enc now_ms salt d (token_body (Jwt p k))
           = (d, ErrorJson ''Invalid or expired refresh token'' None 401)"
proof -
  have v: "verify (Jwt p k) s now_ms = Inl JwtTokenExpired" for s
    using expired valid_from by (simp add: verify_def int32_small [OF clock] split: option.splits)
  have a: "authenticate secrets enc now_ms (Some (Bearer (Jwt p k)))
           = Inl (ErrorJson ''Token expired'' (Some ''TOKEN_EXPIRED'') 401)"
    unfolding authenticate_error [OF v] using expired_message [of enc "Jwt p k"]
    by (simp del: message_of.simps str_includes.simps)
  have r: "auth_refresh secrets enc now_ms salt d (token_body (Jwt p k))
           = (d, ErrorJson ''Invalid or expired refresh token'' None 401)"
    by (rule refresh_verify_fails [OF v]) simp
  from v a r show ?thesis by (intro conjI)
qed

theorem expired_token_is_reported_expired_witness:
  "exp (access_payload ex_user 5) = Some 905
   \<and> nbf (access_payload ex_user 5) = None
   \<and> verify (ex_access 5) ''access-key'' 905000 = Inl JwtTokenExpired
   \<and> authenticate ex_secrets ex_enc 905000 (Some (Bearer (ex_access 5)))
       = Inl (ErrorJson ''Token expired'' (Some ''TOKEN_EXPIRED'') 401)
   \<and> auth_refresh ex_secrets ex_enc 905000 2 (ex_db [ex_row 0 5000 1 None]) (token_body (ex_access 5))
       = (ex_db [ex_row 0 5000 1 None], ErrorJson ''Invalid or expired refresh token'' None 401)"
proof -
  have e: "exp (access_payload ex_user 5) = Some 905"
    by (simp add: access_payload_def)
  have n: "nbf (access_payload ex_user 5) = None"
    by (simp add: access_payload_def)
  have z: "(905 :: nat) \<noteq> 0" by simp
  have l: "(905 :: nat) \<le> 905000 div 1000" by simp
  have c: "(905000 :: nat) div 1000 < 2 ^ 31" by simp
  have f: "case nbf (access_payload ex_user 5) of Some n \<Rightarrow> n \<le> 905000 div 1000 | None \<Rightarrow> True"
    by (simp add: n)
  have a: "ex_access 5 = Jwt (access_payload ex_user 5) ''access-key''"
    by (simp add: ex_access_def sign_def)
  from expired_token_is_reported_expired [OF e z l c f, of "''access-key''" "''access-key''"
      ex_secrets ex_enc 2 "ex_db [ex_row 0 5000 1 None]"] e n
  show ?thesis unfolding a by (intro conjI) simp_all
qed

text \<open>
  C7 as stated fails for a token whose \<open>exp\<close> is 0, the first second of the epoch:
  \<open>verify\<close> tests \<open>payload.exp && payload.exp <= now\<close>, and 0 is falsy, so the token
  never expires. Signed under the access secret it is let through by \<open>authenticate\<close>;
  signed under another key it fails on its signature, not as expired. And \<open>verify\<close>
  reads the clock as a 32-bit integer: when the clock reads \<open>2 ^ 31\<close> seconds, the access
  token that the example user was given in second 5, long expired, is refused for its
  \<open>iat\<close>, not as expired.
\<close>

theorem expiry_counterexample:
  "exp \<lparr>sub = ''u1'', email = None, role = None, ptype = None, nbf = None, iat = None, exp = Some 0\<rparr>
     = Some 0
   \<and> verify (Jwt \<lparr>sub = ''u1'', email = None, role = None, ptype = None, nbf = None, iat = None,
                   exp = Some 0\<rparr> ''access-key'') ''access-key'' 5000
     = Inr \<lparr>sub = ''u1'', email = None, role = None, ptype = None, nbf = None, iat = None, exp = Some 0\<rparr>
   \<and> authenticate ex_secrets ex_enc 5000
        (Some (Bearer (Jwt \<lparr>sub = ''u1'', email = None, role = None, ptype = None, nbf = None,
                             iat = None, exp = Some 0\<rparr> ''access-key'')))
     = Inr \<lparr>ctx_userId = ''u1'', ctx_userRole = None,
            ctx_jwtPayload = \<lparr>sub = ''u1'', email = None, role = None, ptype = None, nbf = None,
                               iat = None, exp = Some 0\<rparr>\<rparr>
   \<and> verify (Jwt \<lparr>sub = ''u1'', email = None, role = None, ptype = None, nbf = None, iat = None,
                   exp = Some 0\<rparr> ''other-key'') ''access-key'' 5000
     = Inl JwtTokenSignatureMismatched
   \<and> verify (ex_access 5) ''access-key'' 2147483648000 = Inl JwtTokenIssuedAt"
  by (simp add: ex_defs handler_defs)

section \<open>Logout\<close>

lemma spent_after_revoke:
  assumes once: "length (filter (matching enc uid tok) (db_refreshToken d)) \<le> 1"
    and rec_in: "rcd \<in> set (db_refreshToken d)" and rec_m: "matching enc uid tok rcd"
  shows "spent enc uid tok (refreshToken_update (row_id rcd) t d)"
proof -
  have old: "\<not> matching enc uid tok (if row_id r = row_id rcd then r\<lparr>revokedAt := Some t\<rparr> else r)"
    if "r \<in> set (db_refreshToken d)" for r
  proof (cases "row_id r = row_id rcd")
    case True
    then show ?thesis by (simp add: matching_def)
  next
    case False
    then have "r \<noteq> rcd" by auto
    with filter_le1_unique [OF once that _ rec_in rec_m] have "\<not> matching enc uid tok r" by blast
    with False show ?thesis by simp
  qed
  have "\<forall>r\<in>set (db_refreshToken (refreshToken_update (row_id rcd) t d)). \<not> matching enc uid tok r"
    unfolding rows_update set_map using old by blast
  then show ?thesis
    unfolding spent_def by (simp add: filter_empty_conv del: rows_update)
qed

lemma logout_token_body:
  "tok \<noteq> Opaque [] \<Longrightarrow>
   logout enc t d uid (token_body tok)
     = (case find (\<lambda>r. bcrypt_compare (token_text enc) tok (tokenHash r))
               (filter (\<lambda>r. userId r = uid \<and> revokedAt r = None) (db_refreshToken d)) of
          Some rcd \<Rightarrow> (refreshToken_update (row_id rcd) t d, MessageJson ''Logged out successfully'')
        | None \<Rightarrow> (d, MessageJson ''Logged out successfully''))"
  by (simp add: logout_def token_body_def refreshToken_findMany_def)

lemma logout_spent:
  assumes "tok \<noteq> Opaque []" and "spent enc uid tok d"
  shows "logout enc now_ms d uid (token_body tok) = (d, MessageJson ''Logged out successfully'')"
proof -
  have "filter (\<lambda>r. bcrypt_compare (token_text enc) tok (tokenHash r))
          (filter (\<lambda>r. userId r = uid \<and> revokedAt r = None) (db_refreshToken d)) = []"
    using assms(2) by (auto simp: spent_def matching_def filter_empty_conv)
  then have "find (\<lambda>r. bcrypt_compare (token_text enc) tok (tokenHash r))
          (filter (\<lambda>r. userId r = uid \<and> revokedAt r = None) (db_refreshToken d)) = None"
    by (simp add: find_None_filter)
  with assms(1) show ?thesis
    by (simp add: logout_token_body)
qed

lemma logout_message:
  "string_or_falsy body \<Longrightarrow> snd (logout enc now_ms d uid body) = MessageJson ''Logged out successfully''"
  by (cases "property_refreshToken body")
     (auto simp: string_or_falsy_def logout_def Let_def split: option.splits json_value.splits)

lemma logout_once_spent:
  assumes "tok \<noteq> Opaque []" and "length (filter (matching enc uid tok) (db_refreshToken d)) \<le> 1"
  shows "spent enc uid tok (fst (logout enc t1 d uid (token_body tok)))"
proof (cases "find (\<lambda>r. bcrypt_compare (token_text enc) tok (tokenHash r))
          (filter (\<lambda>r. userId r = uid \<and> revokedAt r = None) (db_refreshToken d))")
  case None
  then have "spent enc uid tok d"
    by (auto simp: find_None_filter spent_def matching_def filter_empty_conv)
  with logout_spent [OF assms(1) this] show ?thesis by simp
next
  case (Some rcd)
  from find_filter_Some [OF Some]
  have "rcd \<in> set (db_refreshToken d)" and "matching enc uid tok rcd"
    by (auto simp: matching_def)
  from spent_after_revoke [OF assms(2) this] Some assms(1) show ?thesis
    by (simp add: logout_token_body del: rows_update)
qed

text \<open>
  C8 (as amended). \<open>logout\<close> answers \<open>Logged out successfully\<close> whenever the body is
  not \<open>null\<close> and its \<open>refreshToken\<close> is a string or falsy. Called with a non-empty
  refresh token that matches no unrevoked row of the user (expired or not), it leaves
  the database as it was. Where at most one unrevoked row of the user matches the
  token, a second call with the same token is such a call: it leaves the database as
  the first call left it.
\<close>

theorem logout_unmatched_is_noop:
  assumes "tok \<noteq> Opaque []"
  shows "(string_or_falsy body
            \<longrightarrow> snd (logout enc now_ms d uid body) = MessageJson ''Logged out successfully'')
       \<and> (filter (matching enc uid tok) (db_refreshToken d) = []
            \<longrightarrow> logout enc now_ms d uid (token_body tok) = (d, MessageJson ''Logged out successfully''))
       \<and> (length (filter (matching enc uid tok) (db_refreshToken d)) \<le> 1
            \<longrightarrow> logout enc t2 (fst (logout enc t1 d uid (token_body tok))) uid (token_body tok)
                  = (fst (logout enc t1 d uid (token_body tok)), MessageJson ''Logged out successfully''))"
proof (intro conjI impI)
  assume "string_or_falsy body"
  then show "snd (logout enc now_ms d uid body) = MessageJson ''Logged out successfully''"
    by (rule logout_message)
next
  assume "filter (matching enc uid tok) (db_refreshToken d) = []"
  then have "spent enc uid tok d" by (simp add: spent_def)
  from logout_spent [OF assms this]
  show "logout enc now_ms d uid (token_body tok) = (d, MessageJson ''Logged out successfully'')" .
next
  assume "length (filter (matching enc uid tok) (db_refreshToken d)) \<le> 1"
  from logout_spent [OF assms logout_once_spent [OF assms this]]
  show "logout enc t2 (fst (logout enc t1 d uid (token_body tok))) uid (token_body tok)
          = (fst (logout enc t1 d uid (token_body tok)), MessageJson ''Logged out successfully'')" .
qed

theorem logout_unmatched_is_noop_witness:
  "ex_refresh 5 \<noteq> Opaque []
   \<and> string_or_falsy (token_body (ex_refresh 5))
   \<and> snd (logout ex_enc 7000 (ex_db [ex_row 0 5000 1 (Some 6000)]) ''u1'' (token_body (ex_refresh 5)))
       = MessageJson ''Logged out successfully''
   \<and> filter (matching ex_enc ''u1'' (ex_refresh 5)) (db_refreshToken (ex_db [ex_row 0 5000 1 (Some 6000)])) = []
   \<and> logout ex_enc 7000 (ex_db [ex_row 0 5000 1 (Some 6000)]) ''u1'' (token_body (ex_refresh 5))
       = (ex_db [ex_row 0 5000 1 (Some 6000)], MessageJson ''Logged out successfully'')
   \<and> length (filter (matching ex_enc ''u1'' (ex_refresh 5)) (db_refreshToken (ex_db [ex_row 0 5000 1 None]))) = 1
   \<and> fst (logout ex_enc 6000 (ex_db [ex_row 0 5000 1 None]) ''u1'' (token_body (ex_refresh 5)))
       = ex_db [ex_row 0 5000 1 (Some 6000)]
   \<and> logout ex_enc 7000 (fst (logout ex_enc 6000 (ex_db [ex_row 0 5000 1 None]) ''u1'' (token_body (ex_refresh 5))))
        ''u1'' (token_body (ex_refresh 5))
       = (ex_db [ex_row 0 5000 1 (Some 6000)], MessageJson ''Logged out successfully'')"
proof -
  have t: "ex_refresh 5 \<noteq> Opaque []"
    by (simp add: ex_refresh_def sign_def)
  have s: "string_or_falsy (token_body (ex_refresh 5))"
    by (simp add: string_or_falsy_def token_body_def)
  have n: "filter (matching ex_enc ''u1'' (ex_refresh 5)) (db_refreshToken (ex_db [ex_row 0 5000 1 (Some 6000)])) = []"
    by (simp add: matching_def ex_defs)
  have l: "length (filter (matching ex_enc ''u1'' (ex_refresh 5)) (db_refreshToken (ex_db [ex_row 0 5000 1 None]))) = 1"
    by (simp add: matching_def ex_defs handler_defs)
  have f: "fst (logout ex_enc 6000 (ex_db [ex_row 0 5000 1 None]) ''u1'' (token_body (ex_refresh 5)))
       = ex_db [ex_row 0 5000 1 (Some 6000)]"
    by (simp add: ex_defs handler_defs)
  note w1 = logout_unmatched_is_noop [OF t, of "token_body (ex_refresh 5)" ex_enc 7000
      "ex_db [ex_row 0 5000 1 (Some 6000)]" "''u1''" 7000 6000]
  note w2 = logout_unmatched_is_noop [OF t, of "token_body (ex_refresh 5)" ex_enc 7000
      "ex_db [ex_row 0 5000 1 None]" "''u1''" 7000 6000]
  from w1 s have m: "snd (logout ex_enc 7000 (ex_db [ex_row 0 5000 1 (Some 6000)]) ''u1'' (token_body (ex_refresh 5)))
       = MessageJson ''Logged out successfully''"
    by blast
  from w1 n have a: "logout ex_enc 7000 (ex_db [ex_row 0 5000 1 (Some 6000)]) ''u1'' (token_body (ex_refresh 5))
       = (ex_db [ex_row 0 5000 1 (Some 6000)], MessageJson ''Logged out successfully'')"
    by blast
  from w2 l have "logout ex_enc 7000 (fst (logout ex_enc 6000 (ex_db [ex_row 0 5000 1 None]) ''u1'' (token_body (ex_refresh 5))))
        ''u1'' (token_body (ex_refresh 5))
       = (fst (logout ex_enc 6000 (ex_db [ex_row 0 5000 1 None]) ''u1'' (token_body (ex_refresh 5))),
          MessageJson ''Logged out successfully'')"
    by simp
  then have b: "logout ex_enc 7000 (fst (logout ex_enc 6000 (ex_db [ex_row 0 5000 1 None]) ''u1'' (token_body (ex_refresh 5))))
        ''u1'' (token_body (ex_refresh 5))
       = (ex_db [ex_row 0 5000 1 (Some 6000)], MessageJson ''Logged out successfully'')"
    unfolding f .
  from t s m n a l f b show ?thesis by (intro conjI)
qed

text \<open>
  C8 as stated fails, and its second call is not always a no-op.
  (a) \<open>logout\<close> looks among the unrevoked rows without regard to expiry: a token whose
  only row has expired matches no active row, yet \<open>logout\<close> revokes that row.
  (b) The empty string matches no row, but it is falsy, so \<open>logout\<close> takes the
  ``everywhere'' branch and revokes every row of the user.
  (c) With two rows stored for one string, the first call revokes one row and the
  second call revokes the other.
  (d) A body that is \<open>null\<close>, and a \<open>refreshToken\<close> that is a number when the user has
  an unrevoked row, make the handler throw: the answer is an error.
\<close>

theorem logout_noop_counterexample:
  "filter (\<lambda>r. userId r = ''u1'' \<and> active 700000000 r
              \<and> bcrypt_compare (token_text ex_enc) (ex_refresh 5) (tokenHash r))
      (db_refreshToken (ex_db [ex_row 0 5000 1 None])) = []
   \<and> logout ex_enc 700000000 (ex_db [ex_row 0 5000 1 None]) ''u1'' (token_body (ex_refresh 5))
       = (ex_db [ex_row 0 5000 1 (Some 700000000)], MessageJson ''Logged out successfully'')
   \<and> ex_db [ex_row 0 5000 1 (Some 700000000)] \<noteq> ex_db [ex_row 0 5000 1 None]
   \<and> filter (\<lambda>r. bcrypt_compare (token_text ex_enc) (Opaque []) (tokenHash r))
        (db_refreshToken (ex_db [ex_row 0 5000 1 None])) = []
   \<and> logout ex_enc 6000 (ex_db [ex_row 0 5000 1 None]) ''u1'' (token_body (Opaque []))
       = (ex_db [ex_row 0 5000 1 (Some 6000)], MessageJson ''Logged out successfully'')
   \<and> ex_db [ex_row 0 5000 1 (Some 6000)] \<noteq> ex_db [ex_row 0 5000 1 None]
   \<and> logout ex_enc 6000 (ex_db [ex_row 0 5000 1 None, ex_row 1 5000 7 None]) ''u1'' (token_body (ex_refresh 5))
       = (ex_db [ex_row 0 5000 1 (Some 6000), ex_row 1 5000 7 None],
          MessageJson ''Logged out successfully'')
   \<and> logout ex_enc 7000 (ex_db [ex_row 0 5000 1 (Some 6000), ex_row 1 5000 7 None]) ''u1''
        (token_body (ex_refresh 5))
       = (ex_db [ex_row 0 5000 1 (Some 6000), ex_row 1 5000 7 (Some 7000)],
          MessageJson ''Logged out successfully'')
   \<and> ex_db [ex_row 0 5000 1 (Some 6000), ex_row 1 5000 7 (Some 7000)]
       \<noteq> ex_db [ex_row 0 5000 1 (Some 6000), ex_row 1 5000 7 None]
   \<and> logout ex_enc 6000 (ex_db [ex_row 0 5000 1 None]) ''u1'' JsonNull
       = (ex_db [ex_row 0 5000 1 None], InternalServerError)
   \<and> logout ex_enc 6000 (ex_db [ex_row 0 5000 1 None]) ''u1'' (JsonObject (Some (JNumber 5)))
       = (ex_db [ex_row 0 5000 1 None], InternalServerError)"
  by (simp add: ex_defs handler_defs ex_enc_defs active_def)


end
